theory Spec2Isabelle
  imports Complex_Main "HOL-Library.Log_Nat" "HOL-Library.Sublist"
begin

section \<open>Data model (quiz/models.py)\<close>

text \<open>
  Every Django model is a record holding the columns the modelled code reads or writes;
  a foreign key is the primary key of the row it points to. A \<open>DateTimeField\<close> is a
  number of microseconds (the resolution of Python's \<open>datetime\<close>), a \<open>DateField\<close> a day
  number. An integer column is a Python \<open>int\<close>, hence \<open>int\<close>; the \<open>FloatField\<close> score
  is a Python float, given by the real number the double denotes. The database is
  SQLite, the backend a Django project has by default.
\<close>

type_synonym datetime = int
type_synonym date = int

record category =
  category_id :: nat
  category_name :: string
  category_description :: string

record exam =
  exam_id :: nat
  exam_category :: nat
  exam_name :: string
  exam_description :: string
  duration_minutes :: int
  exam_total_questions :: int
  passing_score :: int
  exam_is_active :: bool

record topic =
  topic_id :: nat
  topic_exam :: nat
  topic_name :: string
  topic_description :: string
  topic_order :: int

record question =
  question_id :: nat
  question_exam :: nat
  question_topic :: "nat option"
  question_text :: string
  question_type :: string
  difficulty :: string
  explanation :: string
  points :: int
  question_order :: int
  question_is_active :: bool

record choice =
  choice_id :: nat
  choice_question :: nat
  choice_text :: string
  choice_is_correct :: bool
  choice_order :: int

record quiz_session =
  session_id :: nat
  session_user :: nat
  session_exam :: nat
  started_at :: datetime
  completed_at :: "datetime option"
  is_completed :: bool
  score :: real
  total_questions :: int
  correct_answers :: int
  time_taken_seconds :: "int option"
  tokens_granted :: bool
  is_paused :: bool
  paused_at :: "datetime option"
  total_paused_seconds :: int

record user_answer =
  answer_id :: nat
  answer_quiz_session :: nat
  answer_question :: nat
  selected_choices :: "nat list"
  is_correct :: bool

record user_profile =
  profile_user :: nat
  subscription_plan :: string
  tokens :: int
  last_token_grant_date :: "date option"

text \<open>
  The database: one list of rows per table, in insertion order, and the next primary
  key of every table.
\<close>

record db =
  categories :: "category list"
  exams :: "exam list"
  topics :: "topic list"
  questions :: "question list"
  choices :: "choice list"
  quiz_sessions :: "quiz_session list"
  user_answers :: "user_answer list"
  user_profiles :: "user_profile list"
  next_category_id :: nat
  next_exam_id :: nat
  next_topic_id :: nat
  next_question_id :: nat
  next_choice_id :: nat
  next_session_id :: nat
  next_answer_id :: nat

section \<open>Answer evaluation\<close>

text \<open>\<open>Question.get_correct_choices\<close>: \<open>self.choices.filter(is_correct=True)\<close>.\<close>

definition get_correct_choices :: "db \<Rightarrow> question \<Rightarrow> choice list" where
  "get_correct_choices d q =
     filter (\<lambda>c. choice_question c = question_id q \<and> choice_is_correct c) (choices d)"

text \<open>\<open>self.selected_choices.all()\<close>: the Choice rows the many-to-many relation names.\<close>

definition selected_choices_all :: "db \<Rightarrow> user_answer \<Rightarrow> choice list" where
  "selected_choices_all d a =
     filter (\<lambda>c. choice_id c \<in> set (selected_choices a)) (choices d)"

text \<open>
  \<open>UserAnswer.check_answer\<close>. Python's \<open>set(queryset)\<close> compares model instances by
  primary key, so both sets are sets of choice ids. The argument \<open>q\<close> is the row
  \<open>self.question\<close>. A question type outside the three known ones leaves the flag as it
  was. The method returns \<open>self.is_correct\<close>, the flag of the returned record.
\<close>

definition check_answer :: "db \<Rightarrow> question \<Rightarrow> user_answer \<Rightarrow> user_answer" where
  "check_answer d q a =
     (let correct_choices = set (map choice_id (get_correct_choices d q));
          selected = set (map choice_id (selected_choices_all d a))
      in if question_type q = ''single''
         then a\<lparr>is_correct := (card selected = 1 \<and> selected = correct_choices)\<rparr>
         else if question_type q = ''multiple''
         then a\<lparr>is_correct := (selected = correct_choices)\<rparr>
         else if question_type q = ''true_false''
         then a\<lparr>is_correct := (card selected = 1 \<and> selected = correct_choices)\<rparr>
         else a)"

section \<open>Exceptions and column checks\<close>

text \<open>
  The exceptions the modelled code can raise. \<open>CannotDetermineCorrectAnswer t cs\<close> is
  the \<open>ValueError\<close> of line 576 of the importer, whose message quotes the provided
  answer \<open>t\<close> and prints the list of choices \<open>cs\<close>; \<open>InvalidLiteral\<close> is the
  \<open>ValueError\<close> of \<open>int()\<close>; \<open>AttributeError\<close> is \<open>.strip()\<close> called on \<open>None\<close>.
  \<open>IntegrityError\<close> is the database refusing \<open>NULL\<close> in a text column or a negative
  number in a \<open>PositiveIntegerField\<close>; \<open>OverflowError\<close> is the database driver
  refusing an integer outside 64 bits. Column lengths, which SQLite does not enforce,
  are not modelled. A message built with an f-string is kept by its constant words.
\<close>

datatype error =
    AttributeError
  | ValueError string
  | InvalidLiteral string
  | CannotDetermineCorrectAnswer string "string list"
  | MultipleObjectsReturned
  | IntegrityError
  | OverflowError

text \<open>
  What writing the values \<open>vs\<close> into \<open>PositiveIntegerField\<close> columns raises, if
  anything: the driver refuses a value outside 64 bits when it binds the parameters,
  before the statement runs and the column's check can refuse a negative one.
\<close>

definition positive_integer_columns :: "int list \<Rightarrow> error option" where
  "positive_integer_columns vs =
     (if list_ex (\<lambda>v. v < - (2 ^ 63) \<or> 2 ^ 63 \<le> v) vs then Some OverflowError
      else if list_ex (\<lambda>v. v < 0) vs then Some IntegrityError
      else None)"

section \<open>Python floats\<close>

text \<open>
  A float is the real number the IEEE double denotes. \<open>round_double\<close> is the rounding
  every float operation ends with: to the nearest number with a significand of 53
  bits, a tie going to the even significand. The quotient of two integers, and the
  difference and the product of two floats, are the exact results rounded once; an
  integer met by a float is first converted, which rounds too. Doubles below
  \<open>2\<^sup>-\<^sup>1\<^sup>0\<^sup>2\<^sup>2\<close> or above \<open>2\<^sup>1\<^sup>0\<^sup>2\<^sup>4\<close> in size, which no value of the
  modelled code reaches, are not modelled.
\<close>

definition pow2 :: "int \<Rightarrow> real" where
  "pow2 k = (if 0 \<le> k then 2 ^ nat k else 1 / 2 ^ nat (- k))"

text \<open>For \<open>x > 0\<close>, the \<open>e\<close> with \<open>2\<^sup>e \<le> x < 2\<^sup>e\<^sup>+\<^sup>1\<close>.\<close>

definition binary_exponent :: "real \<Rightarrow> int" where
  "binary_exponent x =
     (if 1 \<le> x then bitlen \<lfloor>x\<rfloor> - 1 else - bitlen (\<lceil>1 / x\<rceil> - 1))"

definition round_half_even :: "real \<Rightarrow> int" where
  "round_half_even x =
     (let f = \<lfloor>x\<rfloor>; r = x - of_int f
      in if r < 1 / 2 then f else if 1 / 2 < r then f + 1
         else if even f then f else f + 1)"

definition round_double :: "real \<Rightarrow> real" where
  "round_double x =
     (if x = 0 then 0
      else let ulp = pow2 (binary_exponent \<bar>x\<bar> - 52)
           in of_int (round_half_even (x / ulp)) * ulp)"

text \<open>\<open>float(n)\<close>, \<open>a / b\<close> for two integers, \<open>x - y\<close> and \<open>x * y\<close> for two floats.\<close>

definition float_of_int :: "int \<Rightarrow> real" where
  "float_of_int n = round_double (of_int n)"

definition int_truediv :: "int \<Rightarrow> int \<Rightarrow> real" where
  "int_truediv a b = round_double (of_int a / of_int b)"

definition float_sub :: "real \<Rightarrow> real \<Rightarrow> real" where
  "float_sub x y = round_double (x - y)"

definition float_mul :: "real \<Rightarrow> real \<Rightarrow> real" where
  "float_mul x y = round_double (x * y)"

text \<open>Python's \<open>int(x)\<close> on a float: truncation towards zero.\<close>

definition py_int_of_float :: "real \<Rightarrow> int" where
  "py_int_of_float x = (if 0 \<le> x then \<lfloor>x\<rfloor> else \<lceil>x\<rceil>)"

section \<open>Quiz session methods\<close>

text \<open>
  \<open>timedelta.total_seconds()\<close> of the difference of two datetimes: the microseconds
  divided by \<open>10\<^sup>6\<close>, as a float.
\<close>

definition total_seconds :: "datetime \<Rightarrow> datetime \<Rightarrow> real" where
  "total_seconds later earlier = int_truediv (later - earlier) 1000000"

text \<open>\<open>self.exam.questions.filter(is_active=True).count()\<close>\<close>

definition active_question_count :: "db \<Rightarrow> nat \<Rightarrow> nat" where
  "active_question_count d e =
     length (filter (\<lambda>q. question_exam q = e \<and> question_is_active q) (questions d))"

text \<open>\<open>self.user_answers.filter(is_correct=True).count()\<close>\<close>

definition correct_answer_count :: "db \<Rightarrow> nat \<Rightarrow> nat" where
  "correct_answer_count d s =
     length (filter (\<lambda>a. answer_quiz_session a = s \<and> is_correct a) (user_answers d))"

text \<open>
  \<open>QuizSession.calculate_score\<close>: the value returned and the session object afterwards.
  The score is \<open>(correct / total_questions_in_exam) * 100\<close> in floats. The method does
  not save.
\<close>

definition calculate_score :: "db \<Rightarrow> quiz_session \<Rightarrow> real \<times> quiz_session" where
  "calculate_score d s =
     (let total_questions_in_exam = active_question_count d (session_exam s)
      in if total_questions_in_exam = 0 then (0, s)
         else
           let correct = correct_answer_count d (session_id s);
               s' = s\<lparr>correct_answers := int correct,
                      total_questions := int total_questions_in_exam,
                      score := float_mul
                                 (int_truediv (int correct) (int total_questions_in_exam))
                                 (float_of_int 100)\<rparr>
           in (score s', s'))"

text \<open>
  \<open>Model.save()\<close> of a session that has a primary key: the row with that key is
  replaced, and the object is inserted when no row has it. The database refuses
  the write when one of the four \<open>PositiveIntegerField\<close> columns would not hold its
  value; nothing is stored then.
\<close>

definition save_session :: "quiz_session \<Rightarrow> db \<Rightarrow> error + db" where
  "save_session s d =
     (case positive_integer_columns
             ([total_questions s, correct_answers s] @
              (case time_taken_seconds s of Some t \<Rightarrow> [t] | None \<Rightarrow> []) @
              [total_paused_seconds s]) of
        Some e \<Rightarrow> Inl e
      | None \<Rightarrow>
          Inr (if \<exists>r \<in> set (quiz_sessions d). session_id r = session_id s
               then d\<lparr>quiz_sessions :=
                         map (\<lambda>r. if session_id r = session_id s then s else r)
                           (quiz_sessions d)\<rparr>
               else d\<lparr>quiz_sessions := quiz_sessions d @ [s]\<rparr>))"

text \<open>
  \<open>QuizSession.complete_quiz\<close>; \<open>now\<close> is the reading of \<open>timezone.now()\<close>. A stored
  session always has \<open>started_at\<close> (\<open>auto_now_add\<close>), so the test on it succeeds. The
  result is the exception of \<open>save()\<close>, which leaves the database as it was, or the
  session object and the database afterwards.
\<close>

definition complete_quiz ::
  "datetime \<Rightarrow> db \<Rightarrow> quiz_session \<Rightarrow> error + quiz_session \<times> db" where
  "complete_quiz now d s =
     (let s1 = s\<lparr>is_completed := True, completed_at := Some now\<rparr>;
          s2 = s1\<lparr>time_taken_seconds :=
                    Some (py_int_of_float (total_seconds now (started_at s1)))\<rparr>;
          s3 = snd (calculate_score d s2)
      in case save_session s3 d of
           Inl e \<Rightarrow> Inl e
         | Inr d' \<Rightarrow> Inr (s3, d'))"

text \<open>
  \<open>QuizSession.pause_quiz\<close>: the exception of \<open>save()\<close>, or the value returned, the
  object and the database.
\<close>

definition pause_quiz ::
  "datetime \<Rightarrow> db \<Rightarrow> quiz_session \<Rightarrow> error + bool \<times> quiz_session \<times> db" where
  "pause_quiz now d s =
     (if \<not> is_paused s \<and> \<not> is_completed s
      then (let s' = s\<lparr>is_paused := True, paused_at := Some now\<rparr>
            in case save_session s' d of
                 Inl e \<Rightarrow> Inl e
               | Inr d' \<Rightarrow> Inr (True, s', d'))
      else Inr (False, s, d))"

text \<open>\<open>QuizSession.resume_quiz\<close>\<close>

definition resume_quiz ::
  "datetime \<Rightarrow> db \<Rightarrow> quiz_session \<Rightarrow> error + bool \<times> quiz_session \<times> db" where
  "resume_quiz now d s =
     (if is_paused s \<and> \<not> is_completed s
      then (let s1 = (case paused_at s of
                        Some p \<Rightarrow>
                          s\<lparr>total_paused_seconds :=
                              total_paused_seconds s + py_int_of_float (total_seconds now p)\<rparr>
                      | None \<Rightarrow> s);
                s2 = s1\<lparr>is_paused := False, paused_at := None\<rparr>
            in case save_session s2 d of
                 Inl e \<Rightarrow> Inl e
               | Inr d' \<Rightarrow> Inr (True, s2, d'))
      else Inr (False, s, d))"

text \<open>
  \<open>QuizSession.get_remaining_time\<close>. The method reads the clock twice: \<open>now1\<close> for the
  elapsed time and, when the session is paused, \<open>now2\<close> for the pause in progress.
  \<open>e\<close> is the row \<open>self.exam\<close>. The two durations are floats, and so is every
  difference; \<open>max(0, x)\<close> is the integer 0 unless \<open>x\<close> is greater.
\<close>

definition get_remaining_time :: "datetime \<Rightarrow> datetime \<Rightarrow> exam \<Rightarrow> quiz_session \<Rightarrow> int" where
  "get_remaining_time now1 now2 e s =
     (if is_completed s then 0
      else
        let exam_duration_seconds = duration_minutes e * 60;
            elapsed_time = total_seconds now1 (started_at s);
            current_pause_duration =
              (case paused_at s of
                 Some p \<Rightarrow> if is_paused s then total_seconds now2 p else 0
               | None \<Rightarrow> 0);
            actual_elapsed =
              float_sub (float_sub elapsed_time (float_of_int (total_paused_seconds s)))
                current_pause_duration;
            remaining =
              max 0 (float_sub (float_of_int exam_duration_seconds) actual_elapsed)
        in py_int_of_float remaining)"

section \<open>Token ledger (UserProfile)\<close>

text \<open>
  The three methods change the profile object and call \<open>self.save()\<close>; each is modelled
  by the value it returns and the object it saved (or left untouched). \<open>amount\<close> is
  whatever Python integer the caller passes. \<open>tokens\<close> is a \<open>PositiveIntegerField\<close>:
  where \<open>add_tokens\<close> or \<open>deduct_tokens\<close> would store a balance the column does not
  hold, \<open>save()\<close> raises and nothing is stored. \<open>grant_daily_tokens\<close> is modelled for
  a stored balance that leaves room for the ten tokens.
\<close>

definition add_tokens :: "int \<Rightarrow> user_profile \<Rightarrow> error + user_profile" where
  "add_tokens amount p =
     (case positive_integer_columns [tokens p + amount] of
        Some e \<Rightarrow> Inl e
      | None \<Rightarrow> Inr (p\<lparr>tokens := tokens p + amount\<rparr>))"



section \<open>Views of the quiz flow (quiz/views.py, quiz/api_views.py)\<close>

text \<open>
  A view is a function from the request and the database to the response and the
  database afterwards. Of a response only the kind, the HTTP status and the error or
  success text are kept; a JSON body without such a text is named by what it holds.
  \<open>ServerError\<close> stands for an exception that leaves the view. The user is the
  logged-in user of the request; the keys in the address and in the body are numbers
  that a key column holds (below \<open>2\<^sup>6\<^sup>3\<close>).
\<close>

datatype response =
    NotFound
  | ServerError
  | Json nat string
  | Render string

text \<open>\<open>get_object_or_404(QuizSession, id=session_id, user=request.user)\<close>\<close>

definition get_session :: "db \<Rightarrow> nat \<Rightarrow> nat \<Rightarrow> quiz_session option" where
  "get_session d sid u =
     find (\<lambda>s. session_id s = sid \<and> session_user s = u) (quiz_sessions d)"

definition get_exam :: "db \<Rightarrow> nat \<Rightarrow> exam option" where
  "get_exam d e = find (\<lambda>x. exam_id x = e) (exams d)"

text \<open>
  \<open>UserProfile.objects.get_or_create(user=user)\<close>: the profile and the database; a new
  profile takes the field defaults.
\<close>

definition get_or_create_profile :: "db \<Rightarrow> nat \<Rightarrow> user_profile \<times> db" where
  "get_or_create_profile d u =
     (case find (\<lambda>p. profile_user p = u) (user_profiles d) of
        Some p \<Rightarrow> (p, d)
      | None \<Rightarrow>
          (let p = \<lparr>profile_user = u, subscription_plan = ''basic'', tokens = 100,
                    last_token_grant_date = None\<rparr>
           in (p, d\<lparr>user_profiles := user_profiles d @ [p]\<rparr>)))"

text \<open>The write of a profile that \<open>save()\<close> accepted.\<close>

definition store_profile :: "user_profile \<Rightarrow> db \<Rightarrow> db" where
  "store_profile p d =
     (if \<exists>r \<in> set (user_profiles d). profile_user r = profile_user p
      then d\<lparr>user_profiles :=
                map (\<lambda>r. if profile_user r = profile_user p then p else r) (user_profiles d)\<rparr>
      else d\<lparr>user_profiles := user_profiles d @ [p]\<rparr>)"

definition save_answer :: "user_answer \<Rightarrow> db \<Rightarrow> db" where
  "save_answer a d =
     (if \<exists>r \<in> set (user_answers d). answer_id r = answer_id a
      then d\<lparr>user_answers :=
                map (\<lambda>r. if answer_id r = answer_id a then a else r) (user_answers d)\<rparr>
      else d\<lparr>user_answers := user_answers d @ [a]\<rparr>)"

text \<open>
  The part shared by \<open>quiz_submit_answer\<close> and \<open>QuizSessionViewSet.submit_answer\<close> from
  the lookup of the question on. \<open>qi\<close> is the submitted question id, \<open>cids\<close> the
  submitted choice ids.
\<close>

definition store_answer :: "quiz_session \<Rightarrow> nat \<Rightarrow> nat list \<Rightarrow> db \<Rightarrow> response \<times> db" where
  "store_answer s qi cids d =
     (case find (\<lambda>q. question_id q = qi \<and> question_exam q = session_exam s)
                (questions d) of
        None \<Rightarrow> (NotFound, d)
      | Some q \<Rightarrow>
          (let chosen = filter (\<lambda>c. choice_id c \<in> set cids \<and>
                                     choice_question c = question_id q) (choices d)
           in if chosen = [] then (Json 400 ''Invalid choices'', d)
              else
                let (a, d1) =
                      (case find (\<lambda>a. answer_quiz_session a = session_id s \<and>
                                       answer_question a = question_id q)
                                 (user_answers d) of
                         Some a \<Rightarrow> (a, d)
                       | None \<Rightarrow>
                           (let a = \<lparr>answer_id = next_answer_id d,
                                     answer_quiz_session = session_id s,
                                     answer_question = question_id q,
                                     selected_choices = [], is_correct = False\<rparr>
                            in (a, d\<lparr>user_answers := user_answers d @ [a],
                                     next_answer_id := Suc (next_answer_id d)\<rparr>)));
                    a1 = a\<lparr>selected_choices := map choice_id chosen\<rparr>;
                    d2 = save_answer a1 d1;
                    a2 = check_answer d2 q a1
                in (Json 200 ''success'', save_answer a2 d2)))"

text \<open>
  \<open>quiz_submit_answer\<close> (views.py). The form field \<open>question_id\<close> is a string that reads
  as the number \<open>qi\<close>, or is absent or empty (\<open>None\<close>); the string \<open>0\<close> is not empty.
\<close>

definition quiz_submit_answer ::
  "string \<Rightarrow> nat \<Rightarrow> nat \<Rightarrow> nat option \<Rightarrow> nat list \<Rightarrow> db \<Rightarrow> response \<times> db" where
  "quiz_submit_answer method u sid qid cids d =
     (if method \<noteq> ''POST'' then (Json 405 ''Invalid request method'', d)
      else case get_session d sid u of
        None \<Rightarrow> (NotFound, d)
      | Some s \<Rightarrow>
          if is_completed s then (Json 400 ''Quiz already completed'', d)
          else (case qid of
                  None \<Rightarrow> (Json 400 ''Missing question_id or choice_ids'', d)
                | Some qi \<Rightarrow>
                    if cids = [] then (Json 400 ''Missing question_id or choice_ids'', d)
                    else store_answer s qi cids d))"

text \<open>
  \<open>QuizSessionViewSet.submit_answer\<close> (api_views.py). The JSON member \<open>question_id\<close> is
  a number, or absent (\<open>None\<close>); the number 0 counts as absent for \<open>not question_id\<close>.
\<close>

definition api_submit_answer ::
  "nat \<Rightarrow> nat \<Rightarrow> nat option \<Rightarrow> nat list \<Rightarrow> db \<Rightarrow> response \<times> db" where
  "api_submit_answer u sid qid cids d =
     (case get_session d sid u of
        None \<Rightarrow> (NotFound, d)
      | Some s \<Rightarrow>
          if is_completed s then (Json 400 ''Quiz already completed'', d)
          else (case qid of
                  None \<Rightarrow> (Json 400 ''Missing question_id or choice_ids'', d)
                | Some qi \<Rightarrow>
                    if qi = 0 \<or> cids = []
                    then (Json 400 ''Missing question_id or choice_ids'', d)
                    else store_answer s qi cids d))"

text \<open>
  \<open>quiz_result\<close> (views.py), up to the token bonus; what follows in the source only
  reads the database to render the page.
\<close>

definition quiz_result :: "datetime \<Rightarrow> nat \<Rightarrow> nat \<Rightarrow> db \<Rightarrow> response \<times> db" where
  "quiz_result now u sid d =
     (case get_session d sid u of
        None \<Rightarrow> (NotFound, d)
      | Some s \<Rightarrow>
          (case (if \<not> is_completed s then complete_quiz now d s else Inr (s, d)) of
             Inl e \<Rightarrow> (ServerError, d)
           | Inr (s1, d1) \<Rightarrow>
               (let was_completed_before = is_completed s;
                    s2 = snd (calculate_score d1 s1)
                in case save_session s2 d1 of
                     Inl e \<Rightarrow> (ServerError, d1)
                   | Inr d2 \<Rightarrow>
                       if \<not> was_completed_before \<and> \<not> tokens_granted s2
                       then (case get_exam d2 (session_exam s2) of
                               None \<Rightarrow> (ServerError, d2)
                             | Some e \<Rightarrow>
                                 if score s2 \<ge> real_of_int (passing_score e)
                                 then (let (p, d3) = get_or_create_profile d2 u
                                       in case add_tokens 50 p of
                                            Inl err \<Rightarrow> (ServerError, d3)
                                          | Inr p' \<Rightarrow>
                                              (let d4 = store_profile p' d3;
                                                   s3 = s2\<lparr>tokens_granted := True\<rparr>
                                               in case save_session s3 d4 of
                                                    Inl err \<Rightarrow> (ServerError, d4)
                                                  | Inr d5 \<Rightarrow>
                                                      (Render ''quiz/quiz_result.html'',
                                                       d5)))
                                 else (Render ''quiz/quiz_result.html'', d2))
                       else (Render ''quiz/quiz_result.html'', d2))))"

text \<open>\<open>QuizSessionViewSet.results\<close> (api_views.py)\<close>

definition api_results :: "datetime \<Rightarrow> nat \<Rightarrow> nat \<Rightarrow> db \<Rightarrow> response \<times> db" where
  "api_results now u sid d =
     (case get_session d sid u of
        None \<Rightarrow> (NotFound, d)
      | Some s \<Rightarrow>
          if \<not> is_completed s
          then (case complete_quiz now d s of
                  Inl e \<Rightarrow> (ServerError, d)
                | Inr (s', d') \<Rightarrow> (Json 200 ''results'', d'))
          else (Json 200 ''results'', d))"

text \<open>
  The route \<open>PATCH /api/quiz-sessions/<id>/\<close>. \<open>QuizSessionViewSet\<close> is declared a
  \<open>ModelViewSet\<close> and registered with the router (api_urls.py), so it serves the
  framework's \<open>partial_update\<close>: the session is looked up in \<open>get_queryset()\<close> (the
  sessions of the user), the members of the body are validated by
  \<open>QuizSessionSerializer\<close>, assigned to the object, and the object is saved. The
  serializer lists \<open>is_completed\<close> without making it read-only. Modelled for a body
  whose only member is \<open>is_completed\<close>, given as a JSON boolean \<open>v\<close>.
\<close>

definition api_partial_update_is_completed ::
  "bool \<Rightarrow> nat \<Rightarrow> nat \<Rightarrow> db \<Rightarrow> response \<times> db" where
  "api_partial_update_is_completed v u sid d =
     (case get_session d sid u of
        None \<Rightarrow> (NotFound, d)
      | Some s \<Rightarrow>
          (case save_session (s\<lparr>is_completed := v\<rparr>) d of
             Inl e \<Rightarrow> (ServerError, d)
           | Inr d' \<Rightarrow> (Json 200 ''quiz_session'', d')))"

section \<open>Python strings and dictionaries\<close>

text \<open>
  A Python \<open>str\<close> is a \<open>string\<close> whose characters are the code points below 256.
  \<open>py_isspace\<close> lists the code points below 256 that \<open>str.strip()\<close> removes;
  \<open>py_lower\<close> is \<open>str.lower()\<close> on them.
\<close>

definition py_isspace :: "char \<Rightarrow> bool" where
  "py_isspace c \<longleftrightarrow>
     c \<in> set [CHR 0x09, CHR 0x0A, CHR 0x0B, CHR 0x0C, CHR 0x0D, CHR 0x1C, CHR 0x1D,
               CHR 0x1E, CHR 0x1F, CHR 0x20, CHR 0x85, CHR 0xA0]"

definition py_strip :: "string \<Rightarrow> string" where
  "py_strip s = rev (dropWhile py_isspace (rev (dropWhile py_isspace s)))"

definition py_lower_char :: "char \<Rightarrow> char" where
  "py_lower_char c =
     (let n = (of_char c :: nat)
      in if (65 \<le> n \<and> n \<le> 90) \<or> (192 \<le> n \<and> n \<le> 222 \<and> n \<noteq> 215)
         then char_of (n + 32) else c)"

definition py_lower :: "string \<Rightarrow> string" where
  "py_lower s = map py_lower_char s"

text \<open>\<open>s.startswith(p)\<close>, \<open>s.endswith(p)\<close> and \<open>sub in s\<close>.\<close>

fun startswith :: "string \<Rightarrow> string \<Rightarrow> bool" where
  "startswith s [] = True"
| "startswith [] (p # ps) = False"
| "startswith (c # cs) (p # ps) = (c = p \<and> startswith cs ps)"

definition endswith :: "string \<Rightarrow> string \<Rightarrow> bool" where
  "endswith s p = startswith (rev s) (rev p)"

fun py_in :: "string \<Rightarrow> string \<Rightarrow> bool" where
  "py_in sub [] = (sub = [])"
| "py_in sub (c # cs) = (startswith (c # cs) sub \<or> py_in sub cs)"

text \<open>\<open>s.replace(old, new)\<close> for a non-empty \<open>old\<close> (the only use in the importer).\<close>

function py_replace :: "string \<Rightarrow> string \<Rightarrow> string \<Rightarrow> string" where
  "py_replace old new [] = []"
| "py_replace old new (c # cs) =
     (if old \<noteq> [] \<and> startswith (c # cs) old
      then new @ py_replace old new (drop (length old) (c # cs))
      else c # py_replace old new cs)"
  by pat_completeness auto
termination
  by (relation "measure (\<lambda>(old, new, s). length s)") auto

text \<open>\<open>s.split(sep)\<close> for a separator of one character.\<close>

fun py_split :: "char \<Rightarrow> string \<Rightarrow> string list" where
  "py_split sep [] = [[]]"
| "py_split sep (c # cs) =
     (if c = sep then [] # py_split sep cs
      else (case py_split sep cs of
              w # ws \<Rightarrow> (c # w) # ws
            | [] \<Rightarrow> [[c]]))"

text \<open>The slice \<open>s[1:-1]\<close>.\<close>

definition slice_1_m1 :: "string \<Rightarrow> string" where
  "slice_1_m1 s = butlast (tl s)"

text \<open>
  \<open>int(s)\<close> for a string: surrounding whitespace is dropped, a sign may come first, and
  the digits may be separated by single underscores. The whitespace of \<open>int\<close> is that
  of \<open>strip\<close> without the four separators \<open>0x1C\<close> to \<open>0x1F\<close>. \<open>None\<close> stands for
  the \<open>ValueError\<close>, which the interpreter also raises for a string of more than 4300
  digits.
\<close>

definition int_isspace :: "char \<Rightarrow> bool" where
  "int_isspace c \<longleftrightarrow>
     c \<in> set [CHR 0x09, CHR 0x0A, CHR 0x0B, CHR 0x0C, CHR 0x0D, CHR 0x20, CHR 0x85,
               CHR 0xA0]"

definition is_digit :: "char \<Rightarrow> bool" where
  "is_digit c \<longleftrightarrow> 48 \<le> (of_char c :: nat) \<and> (of_char c :: nat) \<le> 57"

definition digit_value :: "char \<Rightarrow> int" where
  "digit_value c = of_char c - 48"

fun int_digits :: "int \<Rightarrow> string \<Rightarrow> int option" where
  "int_digits acc [] = Some acc"
| "int_digits acc [c] = (if is_digit c then Some (acc * 10 + digit_value c) else None)"
| "int_digits acc (c # c' # cs) =
     (if is_digit c then int_digits (acc * 10 + digit_value c) (c' # cs)
      else if c = CHR ''_'' \<and> is_digit c'
      then int_digits (acc * 10 + digit_value c') cs
      else None)"

definition int_unsigned :: "string \<Rightarrow> int option" where
  "int_unsigned s =
     (case s of
        [] \<Rightarrow> None
      | c # cs \<Rightarrow> if is_digit c then int_digits (digit_value c) cs else None)"

definition py_int :: "string \<Rightarrow> int option" where
  "py_int s =
     (if 4300 < length (filter is_digit s) then None
      else
        case rev (dropWhile int_isspace (rev (dropWhile int_isspace s))) of
          [] \<Rightarrow> None
        | c # cs \<Rightarrow>
            if c = CHR ''-'' then map_option uminus (int_unsigned cs)
            else if c = CHR ''+'' then int_unsigned cs
            else int_unsigned (c # cs))"

text \<open>
  \<open>str(n)\<close> for an integer of at most 4300 digits, which is every integer that
  \<open>py_int\<close> returns.
\<close>

function str_digits :: "int \<Rightarrow> string" where
  "str_digits n =
     (if n < 10 then [char_of (48 + n)]
      else str_digits (n div 10) @ [char_of (48 + n mod 10)])"
  by pat_completeness auto
termination
  by (relation "measure nat") auto

definition py_str :: "int \<Rightarrow> string" where
  "py_str i = (if i < 0 then CHR ''-'' # str_digits (- i) else str_digits i)"

text \<open>
  A dictionary with string keys, in insertion order, every key once. The values of a
  CSV row are strings, or \<open>None\<close> where the data line is shorter than the header.
\<close>

datatype py_value = Str string | PyNone

type_synonym py_dict = "(string \<times> py_value) list"

definition dict_get :: "py_dict \<Rightarrow> string \<Rightarrow> py_value \<Rightarrow> py_value" where
  "dict_get row k dflt = (case map_of row k of Some v \<Rightarrow> v | None \<Rightarrow> dflt)"

definition truthy :: "py_value \<Rightarrow> bool" where
  "truthy v = (case v of Str s \<Rightarrow> s \<noteq> [] | PyNone \<Rightarrow> False)"

section \<open>The CSV importer (management command import-questions-csv)\<close>

text \<open>
  A statement that may raise and may change the database: the error or the value, and
  the database afterwards. What a statement changed before a later one raises stays
  changed.
\<close>

type_synonym 'a stmt = "db \<Rightarrow> (error + 'a) \<times> db"

definition and_then :: "'a stmt \<Rightarrow> ('a \<Rightarrow> 'b stmt) \<Rightarrow> 'b stmt" where
  "and_then m f d = (case m d of (Inl e, d') \<Rightarrow> (Inl e, d') | (Inr x, d') \<Rightarrow> f x d')"

definition pure :: "error + 'a \<Rightarrow> 'a stmt" where
  "pure r d = (r, d)"

text \<open>\<open>remove_all_brackets\<close>: text that is not a string is returned as it is.\<close>

definition remove_brackets :: "string \<Rightarrow> string" where
  "remove_brackets text = py_replace '']'' [] (py_replace ''['' [] text)"

definition remove_all_brackets :: "py_value \<Rightarrow> py_value" where
  "remove_all_brackets text =
     (case text of Str s \<Rightarrow> Str (remove_brackets s) | PyNone \<Rightarrow> PyNone)"

text \<open>\<open>row.get(key, default).strip()\<close>\<close>

definition get_strip :: "py_dict \<Rightarrow> string \<Rightarrow> string \<Rightarrow> error + string" where
  "get_strip row k dflt =
     (case dict_get row k (Str dflt) of
        Str s \<Rightarrow> Inr (py_strip s)
      | PyNone \<Rightarrow> Inl AttributeError)"

text \<open>\<open>int(row.get(key, n)) if row.get(key, '').strip() else n\<close>\<close>

definition get_int :: "py_dict \<Rightarrow> string \<Rightarrow> int \<Rightarrow> error + int" where
  "get_int row k n =
     (case dict_get row k (Str []) of
        PyNone \<Rightarrow> Inl AttributeError
      | Str s \<Rightarrow>
          if py_strip s \<noteq> []
          then (case py_int s of Some i \<Rightarrow> Inr i | None \<Rightarrow> Inl (InvalidLiteral s))
          else Inr n)"

text \<open>
  \<open>Category.objects.get_or_create(name=..., defaults={'description': ...})\<close>: the row
  found, or the row created; more than one match raises.
\<close>

definition get_or_create_category :: "string \<Rightarrow> category stmt" where
  "get_or_create_category name d =
     (case filter (\<lambda>c. category_name c = name) (categories d) of
        [] \<Rightarrow>
          (let c = \<lparr>category_id = next_category_id d, category_name = name,
                    category_description = ''Category for '' @ name @ '' exams''\<rparr>
           in (Inr c, d\<lparr>categories := categories d @ [c],
                        next_category_id := Suc (next_category_id d)\<rparr>))
      | [c] \<Rightarrow> (Inr c, d)
      | _ \<Rightarrow> (Inl MultipleObjectsReturned, d))"

definition get_or_create_exam ::
  "category \<Rightarrow> string \<Rightarrow> py_value \<Rightarrow> int \<Rightarrow> int \<Rightarrow> int \<Rightarrow> exam stmt" where
  "get_or_create_exam c name description duration total_q passing d =
     (case filter (\<lambda>e. exam_category e = category_id c \<and> exam_name e = name) (exams d) of
        [] \<Rightarrow>
          (case positive_integer_columns [duration, total_q, passing] of
             Some err \<Rightarrow> (Inl err, d)
           | None \<Rightarrow>
               (case description of
                  PyNone \<Rightarrow> (Inl IntegrityError, d)
                | Str text \<Rightarrow>
                    (let e = \<lparr>exam_id = next_exam_id d, exam_category = category_id c,
                              exam_name = name, exam_description = text,
                              duration_minutes = duration, exam_total_questions = total_q,
                              passing_score = passing, exam_is_active = True\<rparr>
                     in (Inr e, d\<lparr>exams := exams d @ [e],
                                  next_exam_id := Suc (next_exam_id d)\<rparr>))))
      | [e] \<Rightarrow> (Inr e, d)
      | _ \<Rightarrow> (Inl MultipleObjectsReturned, d))"

definition get_or_create_topic :: "exam \<Rightarrow> string \<Rightarrow> py_value \<Rightarrow> int \<Rightarrow> topic stmt" where
  "get_or_create_topic e name description ord d =
     (case filter (\<lambda>t. topic_exam t = exam_id e \<and> topic_name t = name) (topics d) of
        [] \<Rightarrow>
          (case positive_integer_columns [ord] of
             Some err \<Rightarrow> (Inl err, d)
           | None \<Rightarrow>
               (case description of
                  PyNone \<Rightarrow> (Inl IntegrityError, d)
                | Str text \<Rightarrow>
                    (let t = \<lparr>topic_id = next_topic_id d, topic_exam = exam_id e,
                              topic_name = name, topic_description = text,
                              topic_order = ord\<rparr>
                     in (Inr t, d\<lparr>topics := topics d @ [t],
                                  next_topic_id := Suc (next_topic_id d)\<rparr>))))
      | [t] \<Rightarrow> (Inr t, d)
      | _ \<Rightarrow> (Inl MultipleObjectsReturned, d))"

text \<open>
  The values the row gives a question (lines 419 to 448): a pure computation between
  the topic and the \<open>update_or_create\<close>.
\<close>

record question_fields =
  f_question_text :: string
  f_question_type :: string
  f_difficulty :: string
  f_explanation :: string
  f_points :: int
  f_order :: int
  f_is_active :: bool

text \<open>
  \<open>int(s) if s else n\<close> inside \<open>try ... except (ValueError, TypeError)\<close> with the
  fallback \<open>n\<close>.
\<close>

definition int_or_default :: "string \<Rightarrow> int \<Rightarrow> int" where
  "int_or_default s n =
     (if s \<noteq> [] then (case py_int s of Some i \<Rightarrow> i | None \<Rightarrow> n) else n)"

definition parse_question_fields :: "py_dict \<Rightarrow> error + question_fields" where
  "parse_question_fields row =
     (case get_strip row ''question_text'' [] of
        Inl e \<Rightarrow> Inl e
      | Inr t \<Rightarrow>
     (let question_text = remove_brackets t
      in if question_text = [] then Inl (ValueError ''question_text cannot be empty'')
      else
     (case get_strip row ''question_type'' ''single'' of
        Inl e \<Rightarrow> Inl e
      | Inr qt \<Rightarrow>
     (let question_type =
            (if py_lower qt \<in> set [''single'', ''multiple'', ''true_false'']
             then py_lower qt else ''single'')
      in
     (case get_strip row ''difficulty'' ''medium'' of
        Inl e \<Rightarrow> Inl e
      | Inr df \<Rightarrow>
     (let difficulty =
            (if py_lower df \<in> set [''easy'', ''medium'', ''hard'']
             then py_lower df else ''medium'')
      in
     (case get_strip row ''explanation'' [] of
        Inl e \<Rightarrow> Inl e
      | Inr ex \<Rightarrow>
     (case get_strip row ''points'' ''1'' of
        Inl e \<Rightarrow> Inl e
      | Inr points_str \<Rightarrow>
     (case get_strip row ''order'' ''0'' of
        Inl e \<Rightarrow> Inl e
      | Inr order_str \<Rightarrow>
     (case get_strip row ''is_active'' ''true'' of
        Inl e \<Rightarrow> Inl e
      | Inr ia \<Rightarrow>
          Inr \<lparr>f_question_text = question_text,
               f_question_type = question_type,
               f_difficulty = difficulty,
               f_explanation = remove_brackets ex,
               f_points = int_or_default points_str 1,
               f_order = int_or_default order_str 0,
               f_is_active =
                 (py_lower ia \<in> set [''true'', ''1'', ''yes'', ''y'', []])\<rparr>))))))))))"

text \<open>
  \<open>Question.objects.update_or_create(exam=..., question_text=..., defaults={...})\<close>:
  the question and whether it was created. An existing question keeps its key, exam
  and text and takes every value of \<open>defaults\<close>.
\<close>

definition update_or_create_question ::
  "exam \<Rightarrow> topic option \<Rightarrow> question_fields \<Rightarrow> (question \<times> bool) stmt" where
  "update_or_create_question e t f d =
     (case filter (\<lambda>q. question_exam q = exam_id e \<and>
                        question_text q = f_question_text f) (questions d) of
        [] \<Rightarrow>
          (case positive_integer_columns [f_points f, f_order f] of
             Some err \<Rightarrow> (Inl err, d)
           | None \<Rightarrow>
            (let q = \<lparr>question_id = next_question_id d, question_exam = exam_id e,
                      question_topic = map_option topic_id t,
                      question_text = f_question_text f,
                      question_type = f_question_type f, difficulty = f_difficulty f,
                      explanation = f_explanation f, points = f_points f,
                      question_order = f_order f, question_is_active = f_is_active f\<rparr>
             in (Inr (q, True), d\<lparr>questions := questions d @ [q],
                                  next_question_id := Suc (next_question_id d)\<rparr>)))
      | [q0] \<Rightarrow>
          (case positive_integer_columns [f_points f, f_order f] of
             Some err \<Rightarrow> (Inl err, d)
           | None \<Rightarrow>
            (let q = q0\<lparr>question_topic := map_option topic_id t,
                        question_type := f_question_type f, difficulty := f_difficulty f,
                        explanation := f_explanation f, points := f_points f,
                        question_order := f_order f, question_is_active := f_is_active f\<rparr>
             in (Inr (q, False),
                 d\<lparr>questions :=
                     map (\<lambda>r. if question_id r = question_id q then q else r)
                       (questions d)\<rparr>)))
      | _ \<Rightarrow> (Inl MultipleObjectsReturned, d))"

text \<open>
  The choices of the row (lines 465 to 484): the columns \<open>choice_1\<close> to \<open>choice_6\<close>
  when the file has choice columns, the pipe-separated column \<open>choices\<close> otherwise.
\<close>

fun collect_choices :: "py_dict \<Rightarrow> string list \<Rightarrow> error + string list" where
  "collect_choices row [] = Inr []"
| "collect_choices row (choice_key # keys) =
     (case map_of row choice_key of
        None \<Rightarrow> collect_choices row keys
      | Some PyNone \<Rightarrow> Inl AttributeError
      | Some (Str s) \<Rightarrow>
          (case collect_choices row keys of
             Inl e \<Rightarrow> Inl e
           | Inr rest \<Rightarrow>
               if py_strip s \<noteq> [] \<and> remove_brackets (py_strip s) \<noteq> []
               then Inr (remove_brackets (py_strip s) # rest)
               else Inr rest))"

definition choice_keys :: "string list" where
  "choice_keys =
     [''choice_1'', ''choice_2'', ''choice_3'', ''choice_4'', ''choice_5'', ''choice_6'']"

definition parse_choices :: "py_dict \<Rightarrow> bool \<Rightarrow> error + string list" where
  "parse_choices row has_choice_columns =
     (case (if has_choice_columns then collect_choices row choice_keys
            else (case get_strip row ''choices'' [] of
                    Inl e \<Rightarrow> Inl e
                  | Inr choices_text \<Rightarrow>
                      if choices_text \<noteq> []
                      then Inr (map (\<lambda>c. remove_brackets (py_strip c))
                                  (filter (\<lambda>c. py_strip c \<noteq> [])
                                     (py_split CHR ''|'' (remove_brackets choices_text))))
                      else Inr [])) of
        Inl e \<Rightarrow> Inl e
      | Inr choices_list \<Rightarrow>
          if choices_list = [] then Inl (ValueError ''At least one choice is required'')
          else Inr choices_list)"

text \<open>Lines 487 to 489.\<close>

definition correct_answer_text :: "py_dict \<Rightarrow> error + string" where
  "correct_answer_text row =
     (case get_strip row ''correct_answer'' [] of
        Inl e \<Rightarrow> Inl e
      | Inr a \<Rightarrow>
          if a \<noteq> [] then Inr (remove_brackets a)
          else (case get_strip row ''correct_choices'' [] of
                  Inl e \<Rightarrow> Inl e
                | Inr b \<Rightarrow> Inr (remove_brackets b)))"

text \<open>
  The resolution of the correct answer (lines 490 to 572). \<open>strip_lower\<close> is
  \<open>.strip().lower()\<close>. Each loop of the source is one function from the choices and
  the answer text to the indices it appends.
\<close>

definition strip_lower :: "string \<Rightarrow> string" where
  "strip_lower s = py_lower (py_strip s)"

text \<open>Lines 494 to 497: the first choice equal to the answer.\<close>

definition exact_match :: "string list \<Rightarrow> string \<Rightarrow> nat list" where
  "exact_match choices_list text =
     (case find (\<lambda>(idx, choice_text). strip_lower choice_text = strip_lower text)
             (enumerate 0 choices_list) of
        Some (idx, _) \<Rightarrow> [idx]
      | None \<Rightarrow> [])"

text \<open>
  Lines 501 to 509: the choices that contain the answer or are contained in it; the
  loop stops at the first for a question of type \<open>single\<close>.
\<close>

definition substring_match :: "string \<Rightarrow> string list \<Rightarrow> string \<Rightarrow> nat list" where
  "substring_match qtype choices_list text =
     (let matches =
            map fst (filter (\<lambda>(idx, choice_text).
                               py_in (strip_lower text) (strip_lower choice_text) \<or>
                               py_in (strip_lower choice_text) (strip_lower text))
                       (enumerate 0 choices_list))
      in if qtype = ''single'' then take 1 matches else matches)"

text \<open>
  Lines 514 to 534: when the answer occurs in the question text, the first choice that
  equals or contains the answer, or contains the answer read as a number.
\<close>

definition question_text_match :: "string \<Rightarrow> string list \<Rightarrow> string \<Rightarrow> nat list" where
  "question_text_match qtext choices_list text =
     (if py_in (strip_lower text) (py_lower qtext)
      then (case find (\<lambda>(idx, choice_text).
                         strip_lower text = strip_lower choice_text \<or>
                         py_in (strip_lower text) (strip_lower choice_text) \<or>
                         (case py_int (strip_lower text) of
                            Some answer_num \<Rightarrow>
                              py_in (py_str answer_num) choice_text \<or>
                              py_in (strip_lower text) choice_text
                          | None \<Rightarrow> False))
                  (enumerate 0 choices_list) of
              Some (idx, _) \<Rightarrow> [idx]
            | None \<Rightarrow> [])
      else [])"

text \<open>
  Lines 538 to 552: the answer as a 1-indexed choice number, or as a list of them
  separated by commas, or by pipes. \<open>None\<close> when every one of the three readings
  raises \<open>ValueError\<close>.
\<close>

definition in_range_indices :: "nat \<Rightarrow> int list \<Rightarrow> nat list" where
  "in_range_indices n indices =
     map (\<lambda>idx. nat (idx - 1)) (filter (\<lambda>idx. 1 \<le> idx \<and> idx \<le> int n) indices)"

definition parse_ints :: "char \<Rightarrow> string \<Rightarrow> int list option" where
  "parse_ints sep text = those (map (\<lambda>x. py_int (py_strip x)) (py_split sep text))"

definition numeric_index :: "string list \<Rightarrow> string \<Rightarrow> nat list option" where
  "numeric_index choices_list text =
     (case py_int (py_strip text) of
        Some choice_num \<Rightarrow>
          Some (if 1 \<le> choice_num \<and> choice_num \<le> int (length choices_list)
                then [nat (choice_num - 1)] else [])
      | None \<Rightarrow>
          (case parse_ints CHR '','' text of
             Some indices \<Rightarrow> Some (in_range_indices (length choices_list) indices)
           | None \<Rightarrow>
               (case parse_ints CHR ''|'' text of
                  Some indices \<Rightarrow> Some (in_range_indices (length choices_list) indices)
                | None \<Rightarrow> None)))"

text \<open>
  Lines 555 to 561 and, without the test for equality, lines 565 to 572: the choices
  that match one of the pipe-separated parts of the answer.
\<close>

definition pipe_parts :: "string \<Rightarrow> string list" where
  "pipe_parts text =
     map strip_lower (filter (\<lambda>c. py_strip c \<noteq> []) (py_split CHR ''|'' text))"

definition pipe_text_match :: "string list \<Rightarrow> string \<Rightarrow> nat list" where
  "pipe_text_match choices_list text =
     map fst (filter (\<lambda>(i, choice).
                        list_ex (\<lambda>correct_choice.
                                   correct_choice = strip_lower choice \<or>
                                   py_in correct_choice (strip_lower choice) \<or>
                                   py_in (strip_lower choice) correct_choice)
                          (pipe_parts text))
                (enumerate 0 choices_list))"

definition pipe_text_match_again :: "string list \<Rightarrow> string \<Rightarrow> nat list" where
  "pipe_text_match_again choices_list text =
     map fst (filter (\<lambda>(i, choice).
                        list_ex (\<lambda>correct_choice.
                                   py_in correct_choice (strip_lower choice) \<or>
                                   py_in (strip_lower choice) correct_choice)
                          (pipe_parts text))
                (enumerate 0 choices_list))"

definition resolve_correct_indices ::
  "string \<Rightarrow> string \<Rightarrow> string list \<Rightarrow> string \<Rightarrow> nat list" where
  "resolve_correct_indices qtype qtext choices_list text =
     (if text = [] then []
      else
        let c1 = exact_match choices_list text;
            c2 = (if c1 = [] then substring_match qtype choices_list text else c1);
            c3 = (if c2 = [] then question_text_match qtext choices_list text else c2);
            c4 = (if c3 = []
                  then (case numeric_index choices_list text of
                          Some indices \<Rightarrow> indices
                        | None \<Rightarrow> pipe_text_match choices_list text)
                  else c3);
            c5 = (if c4 = [] \<and> CHR ''|'' \<in> set text
                  then pipe_text_match_again choices_list text else c4)
        in c5)"

text \<open>Lines 580 to 582.\<close>

definition validate_indices :: "nat list \<Rightarrow> nat \<Rightarrow> error + unit" where
  "validate_indices correct_indices n =
     (case find (\<lambda>idx. idx \<ge> n) correct_indices of
        Some idx \<Rightarrow> Inl (ValueError ''Invalid correct choice index'')
      | None \<Rightarrow> Inr ())"

text \<open>
  Lines 585 to 596: \<open>question.choices.all().delete()\<close>, which also removes the deleted
  choices from the selections of stored answers, then one new choice per text.
\<close>

definition delete_choices :: "question \<Rightarrow> db \<Rightarrow> db" where
  "delete_choices q d =
     (let gone = map choice_id
                   (filter (\<lambda>c. choice_question c = question_id q) (choices d))
      in d\<lparr>choices := filter (\<lambda>c. choice_question c \<noteq> question_id q) (choices d),
           user_answers :=
             map (\<lambda>a. a\<lparr>selected_choices :=
                          filter (\<lambda>i. i \<notin> set gone) (selected_choices a)\<rparr>)
               (user_answers d)\<rparr>)"

fun create_choices :: "question \<Rightarrow> nat list \<Rightarrow> (nat \<times> string) list \<Rightarrow> db \<Rightarrow> db" where
  "create_choices q correct_indices [] d = d"
| "create_choices q correct_indices ((idx, text) # rest) d =
     create_choices q correct_indices rest
       (d\<lparr>choices := choices d @
             [\<lparr>choice_id = next_choice_id d, choice_question = question_id q,
               choice_text = text, choice_is_correct = (idx \<in> set correct_indices),
               choice_order = int idx\<rparr>],
           next_choice_id := Suc (next_choice_id d)\<rparr>)"

definition replace_choices :: "question \<Rightarrow> string list \<Rightarrow> nat list \<Rightarrow> nat stmt" where
  "replace_choices q choices_list correct_indices d =
     (Inr (length choices_list),
      create_choices q correct_indices (enumerate 0 choices_list) (delete_choices q d))"

text \<open>
  \<open>process_row\<close> in three segments: the category and the exam (lines 377 to 404), the
  topic and the question (lines 406 to 463), the choices (lines 465 to 601).
\<close>

definition row_exam :: "py_dict \<Rightarrow> exam stmt" where
  "row_exam row =
     and_then (pure (get_strip row ''category'' ''General'')) (\<lambda>cn.
     and_then (get_or_create_category
                 (remove_brackets (if cn = [] then ''General'' else cn))) (\<lambda>category.
     and_then (pure (get_strip row ''exam'' [])) (\<lambda>en.
       if en = [] then pure (Inl (ValueError ''exam name cannot be empty''))
       else
     and_then (pure (get_int row ''duration_minutes'' 60)) (\<lambda>duration.
     and_then (pure (get_int row ''total_questions'' 10)) (\<lambda>total_q.
     and_then (pure (get_int row ''passing_score'' 60)) (\<lambda>passing.
       get_or_create_exam category (remove_brackets en)
         (remove_all_brackets (dict_get row ''exam_description'' (Str [])))
         duration total_q passing))))))"

definition row_topic :: "py_dict \<Rightarrow> exam \<Rightarrow> topic option stmt" where
  "row_topic row e =
     and_then (pure (get_strip row ''topic'' [])) (\<lambda>tn.
       if tn = [] then pure (Inr None)
       else
     and_then (pure (get_int row ''topic_order'' 0)) (\<lambda>ord.
     and_then (get_or_create_topic e (remove_brackets tn)
                 (remove_all_brackets (dict_get row ''topic_description'' (Str [])))
                 ord) (\<lambda>t.
       pure (Inr (Some t)))))"

definition upsert_question :: "py_dict \<Rightarrow> (question \<times> bool) stmt" where
  "upsert_question row =
     and_then (row_exam row) (\<lambda>e.
     and_then (row_topic row e) (\<lambda>t.
     and_then (pure (parse_question_fields row)) (\<lambda>f.
       update_or_create_question e t f)))"

record import_result =
  created :: bool
  choices_count :: nat

definition process_row :: "py_dict \<Rightarrow> nat \<Rightarrow> bool \<Rightarrow> import_result stmt" where
  "process_row row row_num has_choice_columns =
     and_then (upsert_question row) (\<lambda>(q, was_created).
     and_then (pure (parse_choices row has_choice_columns)) (\<lambda>choices_list.
     and_then (pure (correct_answer_text row)) (\<lambda>text.
       let correct_indices =
             resolve_correct_indices (question_type q) (question_text q) choices_list text
       in if correct_indices = []
          then pure (Inl (CannotDetermineCorrectAnswer text choices_list))
          else
     and_then (pure (validate_indices correct_indices (length choices_list))) (\<lambda>_.
     and_then (replace_choices q choices_list correct_indices) (\<lambda>n.
       pure (Inr \<lparr>created = was_created, choices_count = n\<rparr>))))))"

text \<open>
  \<open>process_csv_file\<close> from line 231 on. What precedes (decoding, the comma
  placeholder, the CSV reader, the matching of header names) is the input here:
  \<open>column_map\<close> from the standard column names to the header names, and the rows the
  reader yields, keyed by header name. A data line with more fields than the header is
  not modelled.
\<close>

text \<open>Lines 263 to 272: the cleaning of one value.\<close>

definition clean_value :: "py_value \<Rightarrow> py_value" where
  "clean_value v =
     (case v of
        PyNone \<Rightarrow> PyNone
      | Str s \<Rightarrow>
          (let v1 = py_strip s;
               v2 = (if startswith v1 ''['' \<and> endswith v1 '']''
                     then py_strip (slice_1_m1 v1) else v1);
               v3 = (if startswith v2 [CHR 0x22] \<and> endswith v2 [CHR 0x22]
                     then py_strip (slice_1_m1 v2) else v2)
           in Str (py_replace ''___COMMA_PLACEHOLDER___'' '','' v3)))"

text \<open>Lines 277 to 291: brackets leave the text fields that are present.\<close>

definition strip_field :: "string \<Rightarrow> py_dict \<Rightarrow> py_dict" where
  "strip_field field row =
     map (\<lambda>(k, v). if k = field then (k, remove_all_brackets v) else (k, v)) row"

definition bracket_free_fields :: "string list" where
  "bracket_free_fields =
     [''question_text'', ''explanation'', ''category'', ''exam'', ''topic''] @ choice_keys @
     [''correct_answer'']"

definition map_row :: "(string \<times> string) list \<Rightarrow> py_dict \<Rightarrow> py_dict" where
  "map_row column_map row =
     fold strip_field bracket_free_fields
       (map (\<lambda>(standard_name, original_name).
               (standard_name, clean_value (dict_get row original_name (Str []))))
          column_map)"

record import_state =
  errors :: "(nat \<times> error) list"
  questions_created :: nat
  questions_updated :: nat
  choices_created :: nat

text \<open>
  The loop of lines 250 to 307. The \<open>except Exception\<close> of line 299 is inside the loop:
  an error of a row is recorded and the loop goes on with the database as the row
  left it.
\<close>

fun process_rows ::
  "(string \<times> string) list \<Rightarrow> bool \<Rightarrow> py_dict list \<Rightarrow> nat \<Rightarrow> import_state \<Rightarrow> db
     \<Rightarrow> import_state \<times> db" where
  "process_rows column_map has_choice_columns [] row_num st d = (st, d)"
| "process_rows column_map has_choice_columns (row # rest) row_num st d =
     (if \<not> list_ex truthy (map snd row)
      then process_rows column_map has_choice_columns rest (Suc row_num) st d
      else
        (case process_row (map_row column_map row) row_num has_choice_columns d of
           (Inr result, d') \<Rightarrow>
             process_rows column_map has_choice_columns rest (Suc row_num)
               (if created result
                then st\<lparr>questions_created := Suc (questions_created st),
                        choices_created := choices_created st + choices_count result\<rparr>
                else st\<lparr>questions_updated := Suc (questions_updated st),
                        choices_created := choices_created st + choices_count result\<rparr>)
               d'
         | (Inl e, d') \<Rightarrow>
             process_rows column_map has_choice_columns rest (Suc row_num)
               (st\<lparr>errors := errors st @ [(row_num, e)]\<rparr>) d'))"

text \<open>
  \<open>with transaction.atomic():\<close> the changes of the block are undone when an exception
  leaves the block and are committed when the block ends normally.
\<close>

definition atomic :: "'a stmt \<Rightarrow> 'a stmt" where
  "atomic body d =
     (case body d of (Inl e, d') \<Rightarrow> (Inl e, d) | (Inr x, d') \<Rightarrow> (Inr x, d'))"

datatype folder = Processed | Failed

datatype log_line = FileError error | RowError nat error

record outcome =
  moved_to :: folder
  error_log :: "log_line list option"
  returned :: bool

definition process_csv_file ::
  "(string \<times> string) list \<Rightarrow> py_dict list \<Rightarrow> db \<Rightarrow> outcome \<times> db" where
  "process_csv_file column_map rows d =
     (let has_choice_columns = list_ex (\<lambda>k. map_of column_map k \<noteq> None) choice_keys;
          has_choices_column = (map_of column_map ''choices'' \<noteq> None)
      in if \<not> (map_of column_map ''exam'' \<noteq> None \<and>
                map_of column_map ''question_text'' \<noteq> None)
         then (\<lparr>moved_to = Failed,
                error_log = Some [FileError (ValueError ''Missing required columns'')],
                returned = False\<rparr>, d)
         else if \<not> (has_choice_columns \<or> has_choices_column)
         then (\<lparr>moved_to = Failed,
                error_log = Some [FileError (ValueError ''No choice columns found'')],
                returned = False\<rparr>, d)
         else
           (case atomic (\<lambda>d0. case process_rows column_map has_choice_columns rows 2
                                      \<lparr>errors = [], questions_created = 0,
                                       questions_updated = 0, choices_created = 0\<rparr> d0 of
                                 (st, d1) \<Rightarrow> (Inr st, d1)) d of
              (Inl e, d') \<Rightarrow>
                (\<lparr>moved_to = Failed, error_log = Some [FileError e], returned = False\<rparr>, d')
            | (Inr st, d') \<Rightarrow>
                if errors st \<noteq> []
                then (\<lparr>moved_to = Failed,
                       error_log = Some (map (\<lambda>(n, e). RowError n e) (errors st)),
                       returned = False\<rparr>, d')
                else (\<lparr>moved_to = Processed, error_log = None, returned = True\<rparr>, d')))"

section \<open>The notions of the specification\<close>

text \<open>
  The resolution of the correct answer as the specification describes it, written
  over the positions of the list of choices and without the importer's loops. Two
  texts are compared after trimming and lowering; a text is within another when it
  occurs there as a contiguous part.
\<close>

definition same_text :: "string \<Rightarrow> string \<Rightarrow> bool" where
  "same_text a b \<longleftrightarrow> py_lower (py_strip a) = py_lower (py_strip b)"

definition text_within :: "string \<Rightarrow> string \<Rightarrow> bool" where
  "text_within a b \<longleftrightarrow> sublist (py_lower (py_strip a)) (py_lower (py_strip b))"

text \<open>The positions, in order, of the choices that satisfy \<open>P\<close>.\<close>

definition choices_where :: "(string \<Rightarrow> bool) \<Rightarrow> string list \<Rightarrow> nat list" where
  "choices_where P choices_list =
     filter (\<lambda>i. P (choices_list ! i)) [0..<length choices_list]"

text \<open>(a) The first choice that is the same text as the answer.\<close>

definition exact_heuristic :: "string list \<Rightarrow> string \<Rightarrow> nat list" where
  "exact_heuristic choices_list answer =
     take 1 (choices_where (\<lambda>c. same_text c answer) choices_list)"

text \<open>
  (b) The choices that have the answer within them or are within the answer: every
  one of them, but only the first for a question of type \<open>single\<close>.
\<close>

definition containment_heuristic :: "string \<Rightarrow> string list \<Rightarrow> string \<Rightarrow> nat list" where
  "containment_heuristic qtype choices_list answer =
     (let hits = choices_where (\<lambda>c. text_within answer c \<or> text_within c answer)
                   choices_list
      in if qtype = ''single'' then take 1 hits else hits)"

text \<open>
  (c) When the answer, trimmed and lowered, occurs in the lowered question text: the
  first choice that has the answer within it, or, for an answer that reads as an
  integer, that contains the decimal numeral of that integer or the trimmed and
  lowered answer, the choice taken as it is written.
\<close>

definition question_text_heuristic :: "string \<Rightarrow> string list \<Rightarrow> string \<Rightarrow> nat list" where
  "question_text_heuristic qtext choices_list answer =
     (if sublist (py_lower (py_strip answer)) (py_lower qtext)
      then take 1 (choices_where
                     (\<lambda>c. text_within answer c \<or>
                          (case py_int (py_lower (py_strip answer)) of
                             Some n \<Rightarrow> sublist (py_str n) c \<or>
                                       sublist (py_lower (py_strip answer)) c
                           | None \<Rightarrow> False))
                     choices_list)
      else [])"

text \<open>
  (d) The answer read as choice numbers counted from 1: as one integer, else as
  integers separated by commas, else as integers separated by pipes, the answer and
  every part of it trimmed. The numbers that name no choice are dropped.
\<close>

definition separated_numbers :: "char \<Rightarrow> string \<Rightarrow> int list option" where
  "separated_numbers sep answer =
     (let parts = py_split sep answer
      in if list_all (\<lambda>x. py_int (py_strip x) \<noteq> None) parts
         then Some (map (\<lambda>x. the (py_int (py_strip x))) parts) else None)"

definition answer_numbers :: "string \<Rightarrow> int list option" where
  "answer_numbers answer =
     (case py_int (py_strip answer) of
        Some n \<Rightarrow> Some [n]
      | None \<Rightarrow>
          (case separated_numbers CHR '','' answer of
             Some ns \<Rightarrow> Some ns
           | None \<Rightarrow> separated_numbers CHR ''|'' answer))"

definition numeric_heuristic :: "string list \<Rightarrow> string \<Rightarrow> nat list" where
  "numeric_heuristic choices_list answer =
     (case answer_numbers answer of
        Some ns \<Rightarrow> [nat (n - 1). n \<leftarrow> ns, 1 \<le> n \<and> n \<le> int (length choices_list)]
      | None \<Rightarrow> [])"

text \<open>
  (e) The answer as texts separated by pipes: the choices that have one of the
  non-blank texts within them or are within one of them.
\<close>

definition pipe_texts_heuristic :: "string list \<Rightarrow> string \<Rightarrow> nat list" where
  "pipe_texts_heuristic choices_list answer =
     choices_where
       (\<lambda>c. \<exists>part \<in> set (py_split CHR ''|'' answer).
               py_strip part \<noteq> [] \<and> (text_within part c \<or> text_within c part))
       choices_list"

text \<open>
  The cascade: the heuristics in the order (a) to (e); the first that yields an index
  decides.
\<close>

fun first_nonempty :: "nat list list \<Rightarrow> nat list" where
  "first_nonempty [] = []"
| "first_nonempty (x # xs) = (if x \<noteq> [] then x else first_nonempty xs)"

definition heuristic_cascade ::
  "string \<Rightarrow> string \<Rightarrow> string list \<Rightarrow> string \<Rightarrow> nat list" where
  "heuristic_cascade qtype qtext choices_list answer =
     first_nonempty
       [exact_heuristic choices_list answer,
        containment_heuristic qtype choices_list answer,
        question_text_heuristic qtext choices_list answer,
        numeric_heuristic choices_list answer,
        pipe_texts_heuristic choices_list answer]"

text \<open>
  The tables and counters that the category, exam and topic statements of a row never
  touch.
\<close>

definition question_tables ::
  "db \<Rightarrow> question list \<times> choice list \<times> nat \<times> user_answer list" where
  "question_tables d = (questions d, choices d, next_choice_id d, user_answers d)"

text \<open>
  The choice rows a successful row leaves for question \<open>q\<close>: one per text, in order,
  keyed from the table's next key on.
\<close>

definition imported_choices :: "question \<Rightarrow> nat \<Rightarrow> nat list \<Rightarrow> string list \<Rightarrow> choice list" where
  "imported_choices q first_id correct_indices choices_list =
     map (\<lambda>(idx, text).
            \<lparr>choice_id = first_id + idx, choice_question = question_id q,
             choice_text = text, choice_is_correct = (idx \<in> set correct_indices),
             choice_order = int idx\<rparr>)
       (enumerate 0 choices_list)"

text \<open>
  The score the specification promises for a session: the number of its answers marked
  correct, divided by the number of active questions of its exam, times 100, both
  counted in the database as it is now.
\<close>

definition expected_score :: "db \<Rightarrow> quiz_session \<Rightarrow> real" where
  "expected_score d s =
     real (correct_answer_count d (session_id s)) /
       real (active_question_count d (session_exam s)) * 100"

text \<open>
  The duration of the pause in progress, in seconds: zero for a session that is not
  paused.
\<close>

definition pause_in_progress :: "datetime \<Rightarrow> quiz_session \<Rightarrow> real" where
  "pause_in_progress now s =
     (if is_paused s
      then (case paused_at s of Some p \<Rightarrow> total_seconds now p | None \<Rightarrow> 0)
      else 0)"

section \<open>Example data\<close>

text \<open>
  A small database: exam 1 with a single-answer question (choices 1 and 2, the second
  correct) and a multiple-answer question (choices 3, 4 and 5, the first two correct);
  exam 2 without questions.
\<close>

definition ex_exam :: exam where
  "ex_exam = \<lparr>exam_id = 1, exam_category = 1, exam_name = ''Basic Test'',
              exam_description = [], duration_minutes = 10, exam_total_questions = 10,
              passing_score = 60, exam_is_active = True\<rparr>"

definition ex_exam_empty :: exam where
  "ex_exam_empty = ex_exam\<lparr>exam_id := 2, exam_name := ''Empty Test''\<rparr>"

definition ex_exam_one_minute :: exam where
  "ex_exam_one_minute = ex_exam\<lparr>exam_id := 3, duration_minutes := 1\<rparr>"

definition ex_q_single :: question where
  "ex_q_single = \<lparr>question_id = 1, question_exam = 1, question_topic = None,
                  question_text = ''2+2?'', question_type = ''single'',
                  difficulty = ''medium'', explanation = [], points = 1,
                  question_order = 0, question_is_active = True\<rparr>"

definition ex_q_multiple :: question where
  "ex_q_multiple = ex_q_single\<lparr>question_id := 2, question_text := ''Even numbers?'',
                                question_type := ''multiple''\<rparr>"

definition ex_choices :: "choice list" where
  "ex_choices =
     [\<lparr>choice_id = 1, choice_question = 1, choice_text = ''3'',
       choice_is_correct = False, choice_order = 0\<rparr>,
      \<lparr>choice_id = 2, choice_question = 1, choice_text = ''4'',
       choice_is_correct = True, choice_order = 1\<rparr>,
      \<lparr>choice_id = 3, choice_question = 2, choice_text = ''2'',
       choice_is_correct = True, choice_order = 0\<rparr>,
      \<lparr>choice_id = 4, choice_question = 2, choice_text = ''6'',
       choice_is_correct = True, choice_order = 1\<rparr>,
      \<lparr>choice_id = 5, choice_question = 2, choice_text = ''7'',
       choice_is_correct = False, choice_order = 2\<rparr>]"

text \<open>
  Session 1 (user 7, exam 1) is running and was paused one minute after its start;
  session 2 (user 7, exam 1) was completed when question 1 was the only question of
  the exam, with the score of that time; session 3 (user 7) is on the empty exam.
\<close>

definition ex_session_running :: quiz_session where
  "ex_session_running =
     \<lparr>session_id = 1, session_user = 7, session_exam = 1, started_at = 0,
      completed_at = None, is_completed = False, score = 0, total_questions = 0,
      correct_answers = 0, time_taken_seconds = None, tokens_granted = False,
      is_paused = True, paused_at = Some 60000000, total_paused_seconds = 0\<rparr>"

definition ex_session_completed :: quiz_session where
  "ex_session_completed =
     \<lparr>session_id = 2, session_user = 7, session_exam = 1, started_at = 0,
      completed_at = Some 120000000, is_completed = True, score = 100, total_questions = 1,
      correct_answers = 1, time_taken_seconds = Some 120, tokens_granted = True,
      is_paused = False, paused_at = None, total_paused_seconds = 0\<rparr>"

definition ex_session_empty :: quiz_session where
  "ex_session_empty =
     ex_session_running\<lparr>session_id := 3, session_exam := 2, score := 40,
                          is_paused := False, paused_at := None\<rparr>"

definition ex_a_single :: user_answer where
  "ex_a_single = \<lparr>answer_id = 1, answer_quiz_session = 2, answer_question = 1,
                  selected_choices = [2], is_correct = True\<rparr>"

definition ex_a_multiple :: user_answer where
  "ex_a_multiple = \<lparr>answer_id = 2, answer_quiz_session = 1, answer_question = 2,
                    selected_choices = [3, 4], is_correct = False\<rparr>"

definition ex_profile :: user_profile where
  "ex_profile = \<lparr>profile_user = 7, subscription_plan = ''basic'', tokens = 100,
                 last_token_grant_date = None\<rparr>"

definition ex_profile_empty :: user_profile where
  "ex_profile_empty = ex_profile\<lparr>tokens := 0\<rparr>"

definition ex_db :: db where
  "ex_db =
     \<lparr>categories = [\<lparr>category_id = 1, category_name = ''Math'',
                      category_description = ''Category for Math exams''\<rparr>],
      exams = [ex_exam, ex_exam_empty],
      topics = [],
      questions = [ex_q_single, ex_q_multiple],
      choices = ex_choices,
      quiz_sessions = [ex_session_running, ex_session_completed, ex_session_empty],
      user_answers = [ex_a_single],
      user_profiles = [ex_profile],
      next_category_id = 2, next_exam_id = 3, next_topic_id = 1, next_question_id = 3,
      next_choice_id = 6, next_session_id = 4, next_answer_id = 2\<rparr>"

text \<open>
  An import into an empty database. The header maps the standard columns; the first
  data line is the example of the specification, the second names an answer that is
  no choice.
\<close>

definition ex_column_map :: "(string \<times> string) list" where
  "ex_column_map =
     [(''category'', ''Category''), (''exam'', ''Exam''),
      (''question_text'', ''Question Text''), (''difficulty'', ''Difficulty''),
      (''correct_answer'', ''Correct Answer''),
      (''choice_1'', ''Choice 1''), (''choice_2'', ''Choice 2''),
      (''choice_3'', ''Choice 3'')]"

definition ex_row_sum :: py_dict where
  "ex_row_sum =
     [(''Category'', Str ''Math''), (''Exam'', Str ''Basic Test''),
      (''Question Text'', Str ''2+2?''), (''Difficulty'', Str ''easy''),
      (''Correct Answer'', Str ''4''),
      (''Choice 1'', Str ''3''), (''Choice 2'', Str ''4''), (''Choice 3'', Str [])]"

definition ex_row_capital :: py_dict where
  "ex_row_capital =
     [(''Category'', Str ''Math''), (''Exam'', Str ''Basic Test''),
      (''Question Text'', Str ''Capital of France?''), (''Difficulty'', Str []),
      (''Correct Answer'', Str ''Berlin''),
      (''Choice 1'', Str ''Paris''), (''Choice 2'', Str ''Rome''), (''Choice 3'', Str [])]"

text \<open>
  A header with a topic column, and the first data line once more under it, now with
  a topic and other values for every field that \<open>update_or_create\<close> sets.
\<close>

definition ex_column_map_topic :: "(string \<times> string) list" where
  "ex_column_map_topic =
     ex_column_map @
     [(''topic'', ''Topic''), (''question_type'', ''Question Type''),
      (''explanation'', ''Explanation''), (''points'', ''Points''),
      (''order'', ''Order''), (''is_active'', ''Is Active'')]"

definition ex_row_sum_topic :: py_dict where
  "ex_row_sum_topic =
     [(''Category'', Str ''Math''), (''Exam'', Str ''Basic Test''),
      (''Question Text'', Str ''[2+2?]''), (''Difficulty'', Str ''Hard''),
      (''Correct Answer'', Str ''2|3''),
      (''Choice 1'', Str ''five''), (''Choice 2'', Str ''four''),
      (''Choice 3'', Str ''2 times 2''),
      (''Topic'', Str ''Arithmetic''), (''Question Type'', Str ''Multiple''),
      (''Explanation'', Str ''Add them''), (''Points'', Str ''3''),
      (''Order'', Str ''5''), (''Is Active'', Str ''no'')]"

definition ex_empty_db :: db where
  "ex_empty_db =
     \<lparr>categories = [], exams = [], topics = [], questions = [], choices = [],
      quiz_sessions = [], user_answers = [], user_profiles = [],
      next_category_id = 1, next_exam_id = 1, next_topic_id = 1, next_question_id = 1,
      next_choice_id = 1, next_session_id = 1, next_answer_id = 1\<rparr>"

definition ex_imported_exam :: exam where
  "ex_imported_exam =
     \<lparr>exam_id = 1, exam_category = 1, exam_name = ''Basic Test'', exam_description = [],
      duration_minutes = 60, exam_total_questions = 10, passing_score = 60,
      exam_is_active = True\<rparr>"

definition ex_imported_question :: question where
  "ex_imported_question =
     \<lparr>question_id = 1, question_exam = 1, question_topic = None,
      question_text = ''2+2?'', question_type = ''single'', difficulty = ''easy'',
      explanation = [], points = 1, question_order = 0, question_is_active = True\<rparr>"

definition ex_capital_question :: question where
  "ex_capital_question =
     \<lparr>question_id = 2, question_exam = 1, question_topic = None,
      question_text = ''Capital of France?'', question_type = ''single'',
      difficulty = ''medium'', explanation = [], points = 1, question_order = 0,
      question_is_active = True\<rparr>"

text \<open>The database after the import of the first data line alone.\<close>

definition ex_imported_db :: db where
  "ex_imported_db =
     \<lparr>categories = [\<lparr>category_id = 1, category_name = ''Math'',
                      category_description = ''Category for Math exams''\<rparr>],
      exams = [ex_imported_exam], topics = [], questions = [ex_imported_question],
      choices =
        [\<lparr>choice_id = 1, choice_question = 1, choice_text = ''3'',
          choice_is_correct = False, choice_order = 0\<rparr>,
         \<lparr>choice_id = 2, choice_question = 1, choice_text = ''4'',
          choice_is_correct = True, choice_order = 1\<rparr>],
      quiz_sessions = [], user_answers = [], user_profiles = [],
      next_category_id = 2, next_exam_id = 2, next_topic_id = 1, next_question_id = 2,
      next_choice_id = 3, next_session_id = 1, next_answer_id = 1\<rparr>"

lemmas ex_defs =
  ex_exam_def ex_exam_empty_def ex_exam_one_minute_def ex_q_single_def ex_q_multiple_def
  ex_choices_def ex_session_running_def ex_session_completed_def ex_session_empty_def
  ex_a_single_def ex_a_multiple_def ex_profile_def ex_profile_empty_def ex_db_def

section \<open>Answer evaluation: theorems\<close>

text \<open>
  C2. \<open>check_answer\<close> sets \<open>is_correct\<close>: for a question of type \<open>single\<close> or
  \<open>true_false\<close> the flag is true iff exactly one choice is selected and the set of
  selected choices equals the set of correct choices of the question; for type
  \<open>multiple\<close> it is true iff the two sets are equal.
\<close>

theorem check_answer_correct:
  "(question_type q = ''single'' \<or> question_type q = ''true_false'' \<longrightarrow>
      (is_correct (check_answer d q a) \<longleftrightarrow>
         card (set (map choice_id (selected_choices_all d a))) = 1 \<and>
         set (map choice_id (selected_choices_all d a)) =
           set (map choice_id (get_correct_choices d q))))
   \<and> (question_type q = ''multiple'' \<longrightarrow>
      (is_correct (check_answer d q a) \<longleftrightarrow>
         set (map choice_id (selected_choices_all d a)) =
           set (map choice_id (get_correct_choices d q))))"
  by (simp add: check_answer_def Let_def)

theorem check_answer_correct_witness:
  "(question_type ex_q_single = ''single'' \<or> question_type ex_q_single = ''true_false'')
   \<and> is_correct (check_answer ex_db ex_q_single (ex_a_single\<lparr>is_correct := False\<rparr>))
   \<and> \<not> is_correct (check_answer ex_db ex_q_single (ex_a_single\<lparr>selected_choices := [1, 2]\<rparr>))
   \<and> question_type ex_q_multiple = ''multiple''
   \<and> is_correct (check_answer ex_db ex_q_multiple ex_a_multiple)
   \<and> \<not> is_correct (check_answer ex_db ex_q_multiple (ex_a_multiple\<lparr>selected_choices := [3]\<rparr>))"
  using check_answer_correct [of ex_q_single ex_db "ex_a_single\<lparr>is_correct := False\<rparr>"]
    check_answer_correct [of ex_q_single ex_db "ex_a_single\<lparr>selected_choices := [1, 2]\<rparr>"]
    check_answer_correct [of ex_q_multiple ex_db ex_a_multiple]
    check_answer_correct [of ex_q_multiple ex_db "ex_a_multiple\<lparr>selected_choices := [3]\<rparr>"]
  by (simp add: ex_defs get_correct_choices_def selected_choices_all_def)

section \<open>Score: theorems\<close>

text \<open>
  C10. For a session whose exam has no active question, \<open>calculate_score\<close> returns 0
  and leaves the session object as it was (score, correct_answers and total_questions
  included): the division is never reached.
\<close>

theorem calculate_score_no_active_questions:
  "active_question_count d (session_exam s) = 0 \<Longrightarrow> calculate_score d s = (0, s)"
  by (simp add: calculate_score_def)

theorem calculate_score_no_active_questions_witness:
  "active_question_count ex_db (session_exam ex_session_empty) = 0
   \<and> calculate_score ex_db ex_session_empty = (0, ex_session_empty)
   \<and> score ex_session_empty = 40"
proof -
  have h: "active_question_count ex_db (session_exam ex_session_empty) = 0"
    by (simp add: ex_defs active_question_count_def)
  from calculate_score_no_active_questions [OF h] h show ?thesis
    by (simp add: ex_session_empty_def)
qed

section \<open>Python floats: theorems\<close>

text \<open>
  Values of \<open>round_double\<close> as the interpreter gives them: \<open>0.1\<close>, two ties at
  \<open>2\<^sup>5\<^sup>3\<close>, a negative number, and the score \<open>29 / 50 * 100\<close>, which is
  \<open>57.99999999999999\<close>. An integer below \<open>2\<^sup>5\<^sup>3\<close> in size is a float.
\<close>

lemma round_double_examples:
  "round_double (1 / 10) = 3602879701896397 / 36028797018963968
   \<and> round_double (2 ^ 53 + 1) = 2 ^ 53
   \<and> round_double (2 ^ 53 + 3) = 2 ^ 53 + 4
   \<and> round_double (- (1 / 3)) = - (6004799503160661 / 18014398509481984)
   \<and> float_mul (int_truediv 29 50) (float_of_int 100) = 8162774324609023 / 140737488355328
   \<and> float_mul (int_truediv 29 50) (float_of_int 100) < 58"
  by code_simp

lemma round_half_even_of_int: "round_half_even (of_int m) = m"
  by (simp add: round_half_even_def Let_def)

lemma round_double_of_int:
  assumes "\<bar>n\<bar> < 2 ^ 53"
  shows "round_double (of_int n) = of_int n"
proof (cases "n = 0")
  case True
  then show ?thesis by (simp add: round_double_def)
next
  case False
  define m where "m = \<bar>n\<bar>"
  have m: "0 < m" "m < 2 ^ 53" using False assms by (simp_all add: m_def)
  define e where "e = bitlen m - 1"
  have bl: "0 < bitlen m"
    using m bitlen_eq_zero_iff [of m] bitlen_nonneg [of m] by linarith
  have "bitlen m \<le> 53"
    using m by (simp add: bitlen_le_iff_power)
  then have e: "0 \<le> e" "e \<le> 52" using bl by (simp_all add: e_def)
  have be: "binary_exponent \<bar>of_int n\<bar> = e"
  proof -
    have "\<bar>(of_int n :: real)\<bar> = of_int m" by (simp add: m_def)
    moreover have "(1::real) \<le> of_int m" using m by simp
    ultimately show ?thesis by (simp add: binary_exponent_def e_def)
  qed
  define k where "k = nat (52 - e)"
  have ulp: "pow2 (e - 52) = 1 / 2 ^ k"
  proof (cases "e = 52")
    case True
    then show ?thesis by (simp add: pow2_def k_def)
  next
    case False
    with e have "e < 52" by simp
    then show ?thesis by (simp add: pow2_def k_def)
  qed
  have q: "round_half_even (real_of_int n * 2 ^ k) = n * 2 ^ k"
    using round_half_even_of_int [of "n * 2 ^ k"] by simp
  show ?thesis
    using False by (simp add: round_double_def Let_def be ulp q)
qed

section \<open>Remaining time: theorems\<close>

text \<open>
  C5 (amended). For a session that is not completed, \<open>get_remaining_time\<close> returns the
  whole seconds (the integer part) of: the exam duration in seconds minus (the seconds
  elapsed since the start, minus \<open>total_paused_seconds\<close>, minus the duration of the pause
  in progress), floored at zero, where the elapsed time and the pause are floats and
  every subtraction is the subtraction of floats. For a completed session it returns
  zero. The value is never negative.
\<close>

theorem get_remaining_time_value:
  "(is_completed s \<longrightarrow> get_remaining_time now1 now2 e s = 0)
   \<and> (\<not> is_completed s \<longrightarrow>
        get_remaining_time now1 now2 e s =
          \<lfloor>max 0 (float_sub (float_of_int (duration_minutes e * 60))
                   (float_sub
                      (float_sub (total_seconds now1 (started_at s))
                         (float_of_int (total_paused_seconds s)))
                      (pause_in_progress now2 s)))\<rfloor>)
   \<and> 0 \<le> get_remaining_time now1 now2 e s"
proof -
  have p: "(case paused_at s of
              Some p \<Rightarrow> if is_paused s then total_seconds now2 p else 0
            | None \<Rightarrow> 0) = pause_in_progress now2 s"
    by (simp add: pause_in_progress_def split: option.splits)
  show ?thesis
    by (simp add: get_remaining_time_def py_int_of_float_def Let_def p)
qed

text \<open>
  Ninety seconds after the start of a ten-minute exam, thirty of them in a pause still
  in progress, 540 seconds remain; a completed session has none. With the pause begun
  after 229 seconds and the clock at 566.2 seconds, the float subtractions give
  370.99999999999994 and the method returns 370.
\<close>

theorem get_remaining_time_value_witness:
  "is_completed ex_session_completed
   \<and> get_remaining_time 90000000 90000000 ex_exam ex_session_completed = 0
   \<and> \<not> is_completed ex_session_running
   \<and> get_remaining_time 90000000 90000000 ex_exam ex_session_running = 540
   \<and> \<not> is_completed (ex_session_running\<lparr>paused_at := Some 229000000\<rparr>)
   \<and> get_remaining_time 566200000 566200000 ex_exam
        (ex_session_running\<lparr>paused_at := Some 229000000\<rparr>) = 370"
proof -
  have a: "\<lfloor>max 0 (float_sub (float_of_int (duration_minutes ex_exam * 60))
                   (float_sub
                      (float_sub (total_seconds 90000000 (started_at ex_session_running))
                         (float_of_int (total_paused_seconds ex_session_running)))
                      (pause_in_progress 90000000 ex_session_running)))\<rfloor> = 540"
    by code_simp
  have b: "\<lfloor>max 0 (float_sub (float_of_int (duration_minutes ex_exam * 60))
                   (float_sub
                      (float_sub
                         (total_seconds 566200000
                            (started_at (ex_session_running\<lparr>paused_at := Some 229000000\<rparr>)))
                         (float_of_int
                            (total_paused_seconds
                               (ex_session_running\<lparr>paused_at := Some 229000000\<rparr>))))
                      (pause_in_progress 566200000
                         (ex_session_running\<lparr>paused_at := Some 229000000\<rparr>))))\<rfloor> = 370"
    by code_simp
  have c: "is_completed ex_session_completed" "\<not> is_completed ex_session_running"
    "\<not> is_completed (ex_session_running\<lparr>paused_at := Some 229000000\<rparr>)"
    by (simp_all add: ex_session_completed_def ex_session_running_def)
  from get_remaining_time_value [of ex_session_completed 90000000 90000000 ex_exam]
    get_remaining_time_value [of ex_session_running 90000000 90000000 ex_exam]
    get_remaining_time_value [of "ex_session_running\<lparr>paused_at := Some 229000000\<rparr>"
      566200000 566200000 ex_exam]
    a b c
  show ?thesis by simp
qed

text \<open>
  The claim without the integer part fails: half a second into a one-minute exam the
  formula gives 59.5 seconds, the method returns 59.
\<close>

theorem get_remaining_time_counterexample:
  "\<not> is_completed (ex_session_running\<lparr>is_paused := False, paused_at := None\<rparr>)
   \<and> get_remaining_time 500000 500000 ex_exam_one_minute
        (ex_session_running\<lparr>is_paused := False, paused_at := None\<rparr>) = 59
   \<and> max 0 (real_of_int (duration_minutes ex_exam_one_minute * 60) -
             (real_of_int (500000 - started_at ex_session_running) / 1000000
              - real_of_int (total_paused_seconds ex_session_running) - 0)) = 59.5"
proof -
  have "get_remaining_time 500000 500000 ex_exam_one_minute
        (ex_session_running\<lparr>is_paused := False, paused_at := None\<rparr>) = 59"
    by code_simp
  then show ?thesis
    by (simp add: ex_session_running_def ex_exam_one_minute_def ex_exam_def)
qed

lemma total_seconds_whole:
  assumes "later - earlier = 1000000 * n" and "\<bar>n\<bar> < 2 ^ 53"
  shows "total_seconds later earlier = of_int n"
  using assms round_double_of_int [of n]
  by (simp add: total_seconds_def int_truediv_def)

lemma float_sub_whole:
  assumes "\<bar>a - b\<bar> < 2 ^ 53"
  shows "float_sub (of_int a) (of_int b) = of_int (a - b)"
  using round_double_of_int [OF assms] by (simp add: float_sub_def)

text \<open>
  When the clock readings are whole seconds after the start and after the beginning of
  the pause, no float operation rounds: the method returns the duration minus (the
  elapsed seconds, minus \<open>total_paused_seconds\<close>, minus the seconds of the pause in
  progress), floored at zero, in integers.
\<close>

lemma get_remaining_time_whole_seconds:
  assumes nc: "\<not> is_completed s"
    and el: "now1 - started_at s = 1000000 * elapsed"
    and pa: "is_paused s \<and> paused_at s \<noteq> None \<longrightarrow>
               now2 - the (paused_at s) = 1000000 * pause"
    and np: "\<not> (is_paused s \<and> paused_at s \<noteq> None) \<longrightarrow> pause = 0"
    and bounds: "\<bar>elapsed\<bar> < 2 ^ 50" "\<bar>pause\<bar> < 2 ^ 50"
      "\<bar>total_paused_seconds s\<bar> < 2 ^ 50" "\<bar>duration_minutes e * 60\<bar> < 2 ^ 50"
  shows "get_remaining_time now1 now2 e s =
           max 0 (duration_minutes e * 60 - (elapsed - total_paused_seconds s - pause))"
proof -
  have e1: "total_seconds now1 (started_at s) = of_int elapsed"
    using el bounds(1) by (intro total_seconds_whole) simp_all
  have p1: "(case paused_at s of
               Some p \<Rightarrow> if is_paused s then total_seconds now2 p else 0
             | None \<Rightarrow> 0) = of_int pause"
  proof (cases "is_paused s \<and> paused_at s \<noteq> None")
    case True
    then obtain p where p: "paused_at s = Some p" by auto
    with True pa have "now2 - p = 1000000 * pause" by simp
    then have "total_seconds now2 p = of_int pause"
      using bounds(2) by (intro total_seconds_whole) simp_all
    with True p show ?thesis by simp
  next
    case False
    with np show ?thesis by (auto split: option.splits)
  qed
  have t1: "float_of_int (total_paused_seconds s) = of_int (total_paused_seconds s)"
    unfolding float_of_int_def using bounds(3) by (intro round_double_of_int) simp
  have d1: "float_of_int (duration_minutes e * 60) = of_int (duration_minutes e * 60)"
    unfolding float_of_int_def using bounds(4) by (intro round_double_of_int) simp
  have s1: "float_sub (of_int elapsed) (of_int (total_paused_seconds s))
            = of_int (elapsed - total_paused_seconds s)"
    using bounds(1,3) by (intro float_sub_whole) simp
  have s2: "float_sub (of_int (elapsed - total_paused_seconds s)) (of_int pause)
            = of_int (elapsed - total_paused_seconds s - pause)"
    using bounds(1,2,3) by (intro float_sub_whole) simp
  have s3: "float_sub (of_int (duration_minutes e * 60))
              (of_int (elapsed - total_paused_seconds s - pause))
            = of_int (duration_minutes e * 60 - (elapsed - total_paused_seconds s - pause))"
    using bounds by (intro float_sub_whole) simp
  have mx: "max 0 (real_of_int x) = of_int (max 0 x)" for x
    by (simp add: max_def)
  show ?thesis
    using nc
    by (simp add: get_remaining_time_def Let_def e1 p1 t1 d1 s1 s2 s3 mx
        py_int_of_float_def del: of_int_diff of_int_mult)
qed

section \<open>Token ledger: theorems\<close>





section \<open>Score recomputation: theorems\<close>

text \<open>
  For a session whose exam has an active question, the score \<open>calculate_score\<close> stores
  is the quotient of the two counts times 100, in floats, counted in the database as
  it is at the call.
\<close>

lemma calculate_score_value:
  assumes "active_question_count d (session_exam s) \<noteq> 0"
  shows "score (snd (calculate_score d s)) =
           float_mul (int_truediv (int (correct_answer_count d (session_id s)))
                        (int (active_question_count d (session_exam s))))
             (float_of_int 100)"
    and "fst (calculate_score d s) = score (snd (calculate_score d s))"
  using assms by (simp_all add: calculate_score_def Let_def)

text \<open>
  The results action of the REST interface returns a completed session as it is
  stored: nothing is computed and nothing is written.
\<close>

lemma api_results_completed:
  assumes "get_session d sid u = Some s" and "is_completed s"
  shows "api_results now u sid d = (Json 200 ''results'', d)"
  using assms by (simp add: api_results_def)

text \<open>
  C3, on the code. Session 2 was completed with the score 100 when its exam had one
  question; the exam now has two active questions and the session one correct answer,
  so the score of the claim is 50, which is also what \<open>calculate_score\<close> returns. The
  web result page stores 50; the results action of the REST interface leaves the
  database as it was, with the old score 100.
\<close>

theorem api_results_keeps_old_score:
  "get_session ex_db 2 7 = Some ex_session_completed
   \<and> is_completed ex_session_completed
   \<and> score ex_session_completed = 100
   \<and> active_question_count ex_db (session_exam ex_session_completed) = 2
   \<and> expected_score ex_db ex_session_completed = 50
   \<and> fst (calculate_score ex_db ex_session_completed) = 50
   \<and> api_results 300000000 7 2 ex_db = (Json 200 ''results'', ex_db)
   \<and> map_option score (get_session (snd (api_results 300000000 7 2 ex_db)) 2 7) = Some 100
   \<and> fst (quiz_result 300000000 7 2 ex_db) = Render ''quiz/quiz_result.html''
   \<and> map_option score (get_session (snd (quiz_result 300000000 7 2 ex_db)) 2 7) = Some 50"
  by code_simp

section \<open>Session life cycle: theorems\<close>

text \<open>
  A clock reading two seconds before the start makes \<open>time_taken_seconds\<close> negative:
  \<open>save()\<close> raises, the session stays not completed, and the result page fails without
  a change. Half a second before the start the integer part is zero and the session
  is completed.
\<close>

lemma complete_quiz_before_start:
  "started_at ex_session_running = 0
   \<and> complete_quiz (- 2000000) ex_db ex_session_running = Inl IntegrityError
   \<and> quiz_result (- 2000000) 7 1 ex_db = (ServerError, ex_db)
   \<and> api_results (- 2000000) 7 1 ex_db = (ServerError, ex_db)
   \<and> map_option (time_taken_seconds \<circ> fst)
         (case complete_quiz (- 500000) ex_db ex_session_running of
            Inl e \<Rightarrow> None | Inr r \<Rightarrow> Some r) = Some (Some 0)"
  by code_simp

text \<open>
  The question id 0 is a missing id for the REST action and an unknown question for
  the web view.
\<close>

lemma submit_answer_question_zero:
  "api_submit_answer 7 1 (Some 0) [1] ex_db
     = (Json 400 ''Missing question_id or choice_ids'', ex_db)
   \<and> quiz_submit_answer ''POST'' 7 1 (Some 0) [1] ex_db = (NotFound, ex_db)"
  by code_simp

text \<open>
  The guards of the methods and of the two views that take an answer: on a completed
  session \<open>pause_quiz\<close> and \<open>resume_quiz\<close> return false with the session and the
  database as they were, and an answer is refused with status 400, the database as it
  was.
\<close>

lemma completed_session_guards:
  assumes "is_completed s"
  shows "pause_quiz now d s = Inr (False, s, d)"
    and "resume_quiz now d s = Inr (False, s, d)"
    and "get_session d sid u = Some s \<Longrightarrow>
           quiz_submit_answer ''POST'' u sid qid cids d =
             (Json 400 ''Quiz already completed'', d)"
    and "get_session d sid u = Some s \<Longrightarrow>
           api_submit_answer u sid qid cids d = (Json 400 ''Quiz already completed'', d)"
  using assms
  by (simp_all add: pause_quiz_def resume_quiz_def quiz_submit_answer_def
      api_submit_answer_def)

text \<open>
  C8, on the code. Session 2 of user 7 is completed. \<open>pause_quiz\<close> and \<open>resume_quiz\<close>
  return false and change nothing, and an answer sent to either view is refused with
  status 400. But the request \<open>PATCH /api/quiz-sessions/2/\<close> of the owner with the body
  \<open>{"is_completed": false}\<close> is answered with status 200 and stores the session as not
  completed; after it the same answer is accepted and stored.
\<close>

theorem completed_session_reopened_by_update:
  "get_session ex_db 2 7 = Some ex_session_completed
   \<and> is_completed ex_session_completed
   \<and> pause_quiz 300000000 ex_db ex_session_completed
        = Inr (False, ex_session_completed, ex_db)
   \<and> resume_quiz 300000000 ex_db ex_session_completed
        = Inr (False, ex_session_completed, ex_db)
   \<and> quiz_submit_answer ''POST'' 7 2 (Some 1) [1] ex_db
        = (Json 400 ''Quiz already completed'', ex_db)
   \<and> api_submit_answer 7 2 (Some 1) [1] ex_db
        = (Json 400 ''Quiz already completed'', ex_db)
   \<and> api_partial_update_is_completed False 7 2 ex_db
        = (Json 200 ''quiz_session'',
           ex_db\<lparr>quiz_sessions :=
                   [ex_session_running, ex_session_completed\<lparr>is_completed := False\<rparr>,
                    ex_session_empty]\<rparr>)
   \<and> map_option is_completed
        (get_session (snd (api_partial_update_is_completed False 7 2 ex_db)) 2 7)
        = Some False
   \<and> fst (quiz_submit_answer ''POST'' 7 2 (Some 1) [1]
             (snd (api_partial_update_is_completed False 7 2 ex_db)))
        = Json 200 ''success''
   \<and> map selected_choices
        (user_answers (snd (quiz_submit_answer ''POST'' 7 2 (Some 1) [1]
                              (snd (api_partial_update_is_completed False 7 2 ex_db)))))
        = [[1]]"
  by code_simp

section \<open>Importer: theorems\<close>

text \<open>
  The string operations of the importer are the standard notions: \<open>startswith\<close> is
  \<open>prefix\<close>, \<open>in\<close> is \<open>sublist\<close>.
\<close>

lemma startswith_prefix: "startswith s p \<longleftrightarrow> prefix p s"
  by (induction s p rule: startswith.induct) auto

lemma py_in_sublist: "py_in sub s \<longleftrightarrow> sublist sub s"
  by (induction s) (simp_all add: startswith_prefix sublist_Cons_right)

lemma enumerate_nth: "enumerate 0 xs = map (\<lambda>i. (i, xs ! i)) [0..<length xs]"
  by (rule nth_equalityI) (simp_all add: nth_enumerate_eq)

lemma choices_where_enumerate:
  "map fst (filter (\<lambda>(i, c). P c) (enumerate 0 cl)) = choices_where P cl"
  by (simp add: enumerate_nth filter_map comp_def choices_where_def)

lemma find_take:
  "(case find Q xs of Some (i, c) \<Rightarrow> [i] | None \<Rightarrow> []) = take 1 (map fst (filter Q xs))"
  by (induction xs) (auto split: prod.splits)

lemma those_map:
  "those (map f xs) =
     (if list_all (\<lambda>x. f x \<noteq> None) xs then Some (map (\<lambda>x. the (f x)) xs) else None)"
  by (induction xs) (auto split: option.splits)

lemma startswith_refl: "startswith s s"
  by (induction s) simp_all

lemma py_in_refl: "py_in s s"
  by (cases s) (simp_all add: startswith_refl)

lemma py_split_no_sep: "sep \<notin> set s \<Longrightarrow> py_split sep s = [s]"
  by (induction s) auto

lemma pipe_text_match_again_eq:
  "pipe_text_match_again choices_list text = pipe_text_match choices_list text"
proof -
  have "(p = strip_lower c \<or> py_in p (strip_lower c) \<or> py_in (strip_lower c) p)
          = (py_in p (strip_lower c) \<or> py_in (strip_lower c) p)" for p c
    using py_in_refl by auto
  then show ?thesis
    by (simp add: pipe_text_match_again_def pipe_text_match_def)
qed

lemma substring_match_empty:
  assumes "substring_match qtype choices_list text = []"
    and "(i, c) \<in> set (enumerate 0 choices_list)"
  shows "\<not> py_in (strip_lower text) (strip_lower c)" "\<not> py_in (strip_lower c) (strip_lower text)"
proof -
  let ?m = "filter (\<lambda>(idx, choice_text).
                      py_in (strip_lower text) (strip_lower choice_text) \<or>
                      py_in (strip_lower choice_text) (strip_lower text)) (enumerate 0 choices_list)"
  have "map fst ?m = []"
    using assms(1) by (cases "map fst ?m") (simp_all add: substring_match_def Let_def split: if_splits)
  then have "?m = []" by simp
  then have "\<not> (py_in (strip_lower text) (strip_lower c) \<or> py_in (strip_lower c) (strip_lower text))"
    using assms(2) by (auto simp: filter_empty_conv)
  then show "\<not> py_in (strip_lower text) (strip_lower c)" "\<not> py_in (strip_lower c) (strip_lower text)" by simp_all
qed

lemma pipe_text_match_without_pipe:
  assumes np: "CHR ''|'' \<notin> set text"
    and sub: "substring_match qtype choices_list text = []"
  shows "pipe_text_match choices_list text = []"
proof -
  have parts: "set (pipe_parts text) \<subseteq> {strip_lower text}"
    using np by (simp add: pipe_parts_def py_split_no_sep)
  have "\<not> list_ex (\<lambda>p. p = strip_lower c \<or> py_in p (strip_lower c) \<or> py_in (strip_lower c) p) (pipe_parts text)"
    if "(i, c) \<in> set (enumerate 0 choices_list)" for i c
    using parts substring_match_empty [OF sub that] py_in_refl [of "strip_lower c"]
    by (auto simp: list_ex_iff)
  then have "filter (\<lambda>(i, choice).
                list_ex (\<lambda>p. p = strip_lower choice \<or> py_in p (strip_lower choice) \<or> py_in (strip_lower choice) p)
                  (pipe_parts text)) (enumerate 0 choices_list) = []"
    by (auto simp: filter_empty_conv)
  then show ?thesis by (simp add: pipe_text_match_def)
qed

lemma resolve_first_nonempty:
  assumes "text \<noteq> []"
  shows "resolve_correct_indices qtype qtext choices_list text =
         first_nonempty
           [exact_match choices_list text,
            substring_match qtype choices_list text,
            question_text_match qtext choices_list text,
            (case numeric_index choices_list text of
               Some indices \<Rightarrow> indices
             | None \<Rightarrow> []),
            pipe_text_match choices_list text]"
proof (cases "exact_match choices_list text = []")
  case False
  then show ?thesis using assms
    by (simp add: resolve_correct_indices_def Let_def)
next
  case a: True
  show ?thesis
  proof (cases "substring_match qtype choices_list text = []")
    case False
    then show ?thesis using assms a
      by (simp add: resolve_correct_indices_def Let_def)
  next
    case b: True
    show ?thesis
    proof (cases "question_text_match qtext choices_list text = []")
      case False
      then show ?thesis using assms a b
        by (simp add: resolve_correct_indices_def Let_def)
    next
      case c: True
      have r: "resolve_correct_indices qtype qtext choices_list text =
          (let c4 = (case numeric_index choices_list text of
                       Some indices \<Rightarrow> indices
                     | None \<Rightarrow> pipe_text_match choices_list text)
           in if c4 = [] \<and> CHR ''|'' \<in> set text
              then pipe_text_match choices_list text else c4)"
        using assms a b c
        by (simp add: resolve_correct_indices_def Let_def pipe_text_match_again_eq)
      show ?thesis
      proof (cases "numeric_index choices_list text")
        case None
        then show ?thesis unfolding r using a b c by (simp add: Let_def)
      next
        case (Some indices)
        show ?thesis
        proof (cases "CHR ''|'' \<in> set text")
          case True
          then show ?thesis unfolding r using Some a b c by (simp add: Let_def)
        next
          case False
          then show ?thesis unfolding r
            using Some a b c pipe_text_match_without_pipe [OF False b]
            by (simp add: Let_def)
        qed
      qed
    qed
  qed
qed

lemma exact_match_spec: "exact_match cl text = exact_heuristic cl text"
  by (simp add: exact_match_def exact_heuristic_def find_take choices_where_enumerate
      same_text_def strip_lower_def)

lemma substring_match_spec:
  "substring_match qtype cl text = containment_heuristic qtype cl text"
  by (simp add: substring_match_def containment_heuristic_def choices_where_enumerate
      text_within_def strip_lower_def py_in_sublist Let_def)

lemma question_text_match_spec:
  "question_text_match qtext cl text = question_text_heuristic qtext cl text"
proof -
  have "(strip_lower text = strip_lower c \<or> py_in (strip_lower text) (strip_lower c) \<or> X)
          = (text_within text c \<or> X)" for c X
    by (auto simp: text_within_def strip_lower_def py_in_sublist)
  then show ?thesis
    by (simp add: question_text_match_def question_text_heuristic_def find_take
        choices_where_enumerate py_in_sublist strip_lower_def cong: option.case_cong)
qed

lemma parse_ints_spec: "parse_ints sep text = separated_numbers sep text"
  by (simp add: parse_ints_def separated_numbers_def those_map Let_def)

lemma in_range_indices_spec:
  "in_range_indices n ns = [nat (i - 1). i \<leftarrow> ns, 1 \<le> i \<and> i \<le> int n]"
  by (induction ns) (simp_all add: in_range_indices_def)

lemma numeric_index_spec:
  "(case numeric_index cl text of Some indices \<Rightarrow> indices | None \<Rightarrow> []) =
     numeric_heuristic cl text"
  by (simp add: numeric_index_def numeric_heuristic_def answer_numbers_def
      parse_ints_spec in_range_indices_spec split: option.splits)

lemma pipe_text_match_spec: "pipe_text_match cl text = pipe_texts_heuristic cl text"
proof -
  have "list_ex (\<lambda>p. p = strip_lower c \<or> py_in p (strip_lower c) \<or> py_in (strip_lower c) p)
          (pipe_parts text)
      = (\<exists>part \<in> set (py_split CHR ''|'' text).
           py_strip part \<noteq> [] \<and> (text_within part c \<or> text_within c part))" for c
    by (auto simp: list_ex_iff pipe_parts_def text_within_def strip_lower_def py_in_sublist)
  then show ?thesis
    by (simp add: pipe_text_match_def pipe_texts_heuristic_def choices_where_enumerate)
qed

lemma resolve_is_cascade:
  assumes "text \<noteq> []"
  shows "resolve_correct_indices qtype qtext choices_list text =
         heuristic_cascade qtype qtext choices_list text"
  unfolding resolve_first_nonempty [OF assms] heuristic_cascade_def
    exact_match_spec substring_match_spec question_text_match_spec numeric_index_spec
    pipe_text_match_spec ..

lemma and_then_Inr: "m d = (Inr x, d') \<Longrightarrow> and_then m f d = f x d'"
  by (simp add: and_then_def)

lemma and_then_pure_Inr: "and_then (pure (Inr x)) f d = f x d"
  by (simp add: and_then_def pure_def)

lemma and_then_success:
  assumes "and_then m f d = (Inr r, d'')"
  obtains x d' where "m d = (Inr x, d')" "f x d' = (Inr r, d'')"
proof (cases "m d")
  case (Pair a d')
  with assms show ?thesis
    by (cases a) (auto simp: and_then_def intro: that)
qed

text \<open>
  C4. For a row with a non-empty correct answer and a non-empty list of choices, the
  indices the importer resolves are those of the first heuristic, in the order (a)
  exact case-insensitive match, (b) containment in either direction, (c) answer inside
  the question text with a second match against a choice, (d) 1-indexed number or
  comma- or pipe-separated numbers, (e) pipe-separated texts, that yields at least one
  index, each heuristic being what the specification's notions define. When none
  yields an index, the row fails with the error that carries the provided answer and
  the list of choices, the database staying as the question's \<open>update_or_create\<close>
  left it.
\<close>

theorem correct_answer_cascade:
  "(text \<noteq> [] \<longrightarrow>
      resolve_correct_indices qtype qtext choices_list text =
        heuristic_cascade qtype qtext choices_list text)
   \<and> (text \<noteq> [] \<and> choices_list \<noteq> []
       \<and> upsert_question row d = (Inr (q, was_created), d1)
       \<and> parse_choices row has_choice_columns = Inr choices_list
       \<and> correct_answer_text row = Inr text
       \<and> heuristic_cascade (question_type q) (question_text q) choices_list text = [] \<longrightarrow>
      process_row row row_num has_choice_columns d =
        (Inl (CannotDetermineCorrectAnswer text choices_list), d1))"
proof (intro conjI impI)
  assume "text \<noteq> []"
  then show "resolve_correct_indices qtype qtext choices_list text =
        heuristic_cascade qtype qtext choices_list text"
    by (rule resolve_is_cascade)
next
  assume h: "text \<noteq> [] \<and> choices_list \<noteq> []
       \<and> upsert_question row d = (Inr (q, was_created), d1)
       \<and> parse_choices row has_choice_columns = Inr choices_list
       \<and> correct_answer_text row = Inr text
       \<and> heuristic_cascade (question_type q) (question_text q) choices_list text = []"
  then have r: "resolve_correct_indices (question_type q) (question_text q) choices_list text = []"
    by (simp add: resolve_is_cascade)
  from h have up: "upsert_question row d = (Inr (q, was_created), d1)" by simp
  show "process_row row row_num has_choice_columns d =
        (Inl (CannotDetermineCorrectAnswer text choices_list), d1)"
    unfolding process_row_def
    using h r
    by (simp add: and_then_Inr [where m = "upsert_question row", OF up]
        and_then_pure_Inr Let_def pure_def)
qed

text \<open>
  One row for each heuristic, decided by it alone: (a) the answer is a choice; (b) the
  answer is part of a choice; (c) the answer stands in the question text and its
  number in a choice; (d) the answer is a choice number; (e) the parts of the answer
  are parts of choices. The last row names a text that is no choice and fails.
\<close>

theorem correct_answer_cascade_witness:
  "''4'' \<noteq> []
   \<and> resolve_correct_indices ''single'' ''2+2?'' [''3'', ''4''] ''4'' = [1]
   \<and> exact_heuristic [''3'', ''4''] ''4'' = [1]
   \<and> resolve_correct_indices ''multiple'' ''Where?'' [''Rome'', ''Paris, France'', ''Paris'']
        ''pariS,'' = [1, 2]
   \<and> exact_heuristic [''Rome'', ''Paris, France'', ''Paris''] ''pariS,'' = []
   \<and> containment_heuristic ''multiple'' [''Rome'', ''Paris, France'', ''Paris''] ''pariS,''
        = [1, 2]
   \<and> resolve_correct_indices ''single'' ''Code 0022?'' [''x21'', ''x22''] ''0022'' = [1]
   \<and> containment_heuristic ''single'' [''x21'', ''x22''] ''0022'' = []
   \<and> question_text_heuristic ''Code 0022?'' [''x21'', ''x22''] ''0022'' = [1]
   \<and> resolve_correct_indices ''multiple'' ''2+2?'' [''five'', ''four'', ''three''] ''2, 3, 9''
        = [1, 2]
   \<and> question_text_heuristic ''2+2?'' [''five'', ''four'', ''three''] ''2, 3, 9'' = []
   \<and> numeric_heuristic [''five'', ''four'', ''three''] ''2, 3, 9'' = [1, 2]
   \<and> resolve_correct_indices ''multiple'' ''2+2?'' [''five'', ''four'', ''three''] ''fou|thre''
        = [1, 2]
   \<and> numeric_heuristic [''five'', ''four'', ''three''] ''fou|thre'' = []
   \<and> pipe_texts_heuristic [''five'', ''four'', ''three''] ''fou|thre'' = [1, 2]
   \<and> ''Berlin'' \<noteq> [] \<and> [''Paris'', ''Rome''] \<noteq> []
   \<and> parse_choices (map_row ex_column_map ex_row_capital) True = Inr [''Paris'', ''Rome'']
   \<and> correct_answer_text (map_row ex_column_map ex_row_capital) = Inr ''Berlin''
   \<and> heuristic_cascade ''single'' ''Capital of France?'' [''Paris'', ''Rome''] ''Berlin'' = []
   \<and> fst (process_row (map_row ex_column_map ex_row_capital) 3 True ex_imported_db)
        = Inl (CannotDetermineCorrectAnswer ''Berlin'' [''Paris'', ''Rome''])"
proof -
  have a: "heuristic_cascade ''single'' ''2+2?'' [''3'', ''4''] ''4'' = [1]"
    "exact_heuristic [''3'', ''4''] ''4'' = [1]"
    by code_simp+
  have b: "heuristic_cascade ''multiple'' ''Where?'' [''Rome'', ''Paris, France'', ''Paris'']
             ''pariS,'' = [1, 2]"
    "exact_heuristic [''Rome'', ''Paris, France'', ''Paris''] ''pariS,'' = []"
    "containment_heuristic ''multiple'' [''Rome'', ''Paris, France'', ''Paris''] ''pariS,''
       = [1, 2]"
    by code_simp+
  have c: "heuristic_cascade ''single'' ''Code 0022?'' [''x21'', ''x22''] ''0022'' = [1]"
    "containment_heuristic ''single'' [''x21'', ''x22''] ''0022'' = []"
    "question_text_heuristic ''Code 0022?'' [''x21'', ''x22''] ''0022'' = [1]"
    by code_simp+
  have d: "heuristic_cascade ''multiple'' ''2+2?'' [''five'', ''four'', ''three''] ''2, 3, 9''
             = [1, 2]"
    "question_text_heuristic ''2+2?'' [''five'', ''four'', ''three''] ''2, 3, 9'' = []"
    "numeric_heuristic [''five'', ''four'', ''three''] ''2, 3, 9'' = [1, 2]"
    by code_simp+
  have e: "heuristic_cascade ''multiple'' ''2+2?'' [''five'', ''four'', ''three''] ''fou|thre''
             = [1, 2]"
    "numeric_heuristic [''five'', ''four'', ''three''] ''fou|thre'' = []"
    "pipe_texts_heuristic [''five'', ''four'', ''three''] ''fou|thre'' = [1, 2]"
    by code_simp+
  have up: "upsert_question (map_row ex_column_map ex_row_capital) ex_imported_db =
      (Inr (ex_capital_question, True),
       ex_imported_db\<lparr>questions := [ex_imported_question, ex_capital_question],
                      next_question_id := 3\<rparr>)"
    by code_simp
  have pc: "parse_choices (map_row ex_column_map ex_row_capital) True = Inr [''Paris'', ''Rome'']"
    by code_simp
  have ct: "correct_answer_text (map_row ex_column_map ex_row_capital) = Inr ''Berlin''"
    by code_simp
  have hc: "heuristic_cascade (question_type ex_capital_question)
              (question_text ex_capital_question) [''Paris'', ''Rome''] ''Berlin'' = []"
    by code_simp
  have k: "question_type ex_capital_question = ''single''"
    "question_text ex_capital_question = ''Capital of France?''"
    by (simp_all add: ex_capital_question_def)
  from correct_answer_cascade [of "''4''" "''single''" "''2+2?''" "[''3'', ''4'']"]
    correct_answer_cascade [of "''pariS,''" "''multiple''" "''Where?''"
      "[''Rome'', ''Paris, France'', ''Paris'']"]
    correct_answer_cascade [of "''0022''" "''single''" "''Code 0022?''" "[''x21'', ''x22'']"]
    correct_answer_cascade [of "''2, 3, 9''" "''multiple''" "''2+2?''"
      "[''five'', ''four'', ''three'']"]
    correct_answer_cascade [of "''fou|thre''" "''multiple''" "''2+2?''"
      "[''five'', ''four'', ''three'']"]
    correct_answer_cascade [of "''Berlin''" "''single''" "''Capital of France?''"
      "[''Paris'', ''Rome'']" "map_row ex_column_map ex_row_capital" ex_imported_db
      ex_capital_question True _ True 3]
    a b c d e up pc ct hc
  show ?thesis unfolding k by simp
qed

lemma get_or_create_category_frame:
  assumes "get_or_create_category name d = (r, d')"
  shows "questions d' = questions d \<and> choices d' = choices d \<and>
         next_choice_id d' = next_choice_id d \<and> user_answers d' = user_answers d"
  using assms
  by (auto simp: get_or_create_category_def Let_def split: list.splits)

lemma get_or_create_exam_frame:
  assumes "get_or_create_exam c name de du tq ps d = (r, d')"
  shows "questions d' = questions d \<and> choices d' = choices d \<and>
         next_choice_id d' = next_choice_id d \<and> user_answers d' = user_answers d"
  using assms
  by (auto simp: get_or_create_exam_def Let_def
      split: list.splits py_value.splits option.splits)

lemma get_or_create_topic_frame:
  assumes "get_or_create_topic e name de ord d = (r, d')"
  shows "questions d' = questions d \<and> choices d' = choices d \<and>
         next_choice_id d' = next_choice_id d \<and> user_answers d' = user_answers d"
  using assms
  by (auto simp: get_or_create_topic_def Let_def
      split: list.splits py_value.splits option.splits)


lemma and_then_keeps:
  assumes "and_then m f d = (r, d')"
    and "\<And>r1 d1. m d = (r1, d1) \<Longrightarrow> g d1 = g d"
    and "\<And>x d1 r2 d2. f x d1 = (r2, d2) \<Longrightarrow> g d2 = g d1"
  shows "g d' = g d"
proof (cases "m d")
  case (Pair a d1)
  show ?thesis
  proof (cases a)
    case (Inl e)
    with Pair assms(1) have "d' = d1" by (simp add: and_then_def)
    with assms(2) [OF Pair] show ?thesis by simp
  next
    case (Inr x)
    with Pair assms(1) have "f x d1 = (r, d')" by (simp add: and_then_def)
    from assms(3) [OF this] assms(2) [OF Pair] show ?thesis by simp
  qed
qed

lemma pure_keeps: "pure v d = (r, d') \<Longrightarrow> g d' = g d"
  by (simp add: pure_def)

lemma row_exam_keeps:
  assumes "row_exam row d = (r, d')"
  shows "question_tables d' = question_tables d"
  using assms unfolding row_exam_def
  apply (elim and_then_keeps pure_keeps)
  apply (auto simp: question_tables_def dest!: get_or_create_category_frame get_or_create_exam_frame
     elim!: and_then_keeps pure_keeps split: if_splits)
  done

lemma row_topic_keeps:
  assumes "row_topic row e d = (r, d')"
  shows "question_tables d' = question_tables d"
  using assms unfolding row_topic_def
  apply (elim and_then_keeps pure_keeps)
  apply (auto simp: question_tables_def dest!: get_or_create_topic_frame
     elim!: and_then_keeps pure_keeps split: if_splits)
  done

lemma create_choices_choices:
  "choices (create_choices q ci (enumerate m cl) d) =
     choices d @ map (\<lambda>(idx, text).
            \<lparr>choice_id = next_choice_id d + (idx - m), choice_question = question_id q,
             choice_text = text, choice_is_correct = (idx \<in> set ci),
             choice_order = int idx\<rparr>) (enumerate m cl)"
proof (induction cl arbitrary: m d)
  case Nil
  then show ?case by simp
next
  case (Cons x xs)
  have "map (\<lambda>(idx, text).
            \<lparr>choice_id = Suc (next_choice_id d) + (idx - Suc m), choice_question = question_id q,
             choice_text = text, choice_is_correct = (idx \<in> set ci),
             choice_order = int idx\<rparr>) (enumerate (Suc m) xs)
      = map (\<lambda>(idx, text).
            \<lparr>choice_id = next_choice_id d + (idx - m), choice_question = question_id q,
             choice_text = text, choice_is_correct = (idx \<in> set ci),
             choice_order = int idx\<rparr>) (enumerate (Suc m) xs)"
    by (rule map_cong) (auto simp: in_set_enumerate_eq)
  then show ?case by (simp add: Cons.IH)
qed

lemma create_choices_questions:
  "questions (create_choices q ci xs d) = questions d"
  by (induction xs arbitrary: d) auto

lemma update_existing_question:
  assumes uq: "update_or_create_question e t f d = (Inr (q, wc), d')"
    and q0: "q0 \<in> set (questions d)" "question_exam q0 = exam_id e"
      "question_text q0 = f_question_text f"
  shows "\<not> wc"
    and "q = q0\<lparr>question_topic := map_option topic_id t,
                  question_type := f_question_type f, difficulty := f_difficulty f,
                  explanation := f_explanation f, points := f_points f,
                  question_order := f_order f, question_is_active := f_is_active f\<rparr>"
    and "d' = d\<lparr>questions :=
                  map (\<lambda>r. if question_id r = question_id q0 then q else r) (questions d)\<rparr>"
proof -
  let ?ms = "filter (\<lambda>q. question_exam q = exam_id e \<and>
                        question_text q = f_question_text f) (questions d)"
  from q0 have mem: "q0 \<in> set ?ms" by simp
  have one: "?ms = [q0]"
  proof (cases ?ms)
    case Nil
    with mem show ?thesis by simp
  next
    case (Cons x xs)
    show ?thesis
    proof (cases xs)
      case Nil
      with Cons mem show ?thesis by simp
    next
      case (Cons y ys)
      with \<open>?ms = x # xs\<close> uq show ?thesis
        by (simp add: update_or_create_question_def)
    qed
  qed
  from uq one show "\<not> wc"
    by (simp add: update_or_create_question_def Let_def split: option.splits)
  from uq one show q: "q = q0\<lparr>question_topic := map_option topic_id t,
                  question_type := f_question_type f, difficulty := f_difficulty f,
                  explanation := f_explanation f, points := f_points f,
                  question_order := f_order f, question_is_active := f_is_active f\<rparr>"
    by (simp add: update_or_create_question_def Let_def split: option.splits)
  from uq one show "d' = d\<lparr>questions :=
                  map (\<lambda>r. if question_id r = question_id q0 then q else r) (questions d)\<rparr>"
    by (auto simp add: update_or_create_question_def Let_def split: option.splits)
qed

lemma replace_choices_result:
  assumes "replace_choices q cl ci d = (Inr n, d')"
  shows "n = length cl" and "questions d' = questions d"
    and "filter (\<lambda>c. choice_question c = question_id q) (choices d') =
         imported_choices q (next_choice_id d) ci cl"
    and "filter (\<lambda>c. choice_question c \<noteq> question_id q) (choices d') =
         filter (\<lambda>c. choice_question c \<noteq> question_id q) (choices d)"
proof -
  from assms have n: "n = length cl"
    and d': "d' = create_choices q ci (enumerate 0 cl) (delete_choices q d)"
    by (simp_all add: replace_choices_def)
  show "n = length cl" by (rule n)
  show "questions d' = questions d"
    by (simp add: d' create_choices_questions delete_choices_def Let_def)
  have nid: "next_choice_id (delete_choices q d) = next_choice_id d"
    by (simp add: delete_choices_def Let_def)
  have old: "filter (\<lambda>c. choice_question c = question_id q) (choices (delete_choices q d)) = []"
    by (simp add: delete_choices_def Let_def filter_empty_conv)
  have new: "filter (\<lambda>c. choice_question c = question_id q)
               (imported_choices q (next_choice_id d) ci cl)
             = imported_choices q (next_choice_id d) ci cl"
    by (rule filter_True) (auto simp: imported_choices_def)
  have all: "choices d' = choices (delete_choices q d) @ imported_choices q (next_choice_id d) ci cl"
    unfolding d' create_choices_choices nid by (simp add: imported_choices_def)
  then show "filter (\<lambda>c. choice_question c = question_id q) (choices d') =
         imported_choices q (next_choice_id d) ci cl"
    by (simp add: old new)
  have others: "filter (\<lambda>c. choice_question c \<noteq> question_id q)
               (imported_choices q (next_choice_id d) ci cl) = []"
    by (auto simp: filter_empty_conv imported_choices_def)
  show "filter (\<lambda>c. choice_question c \<noteq> question_id q) (choices d') =
         filter (\<lambda>c. choice_question c \<noteq> question_id q) (choices d)"
    by (simp add: all others delete_choices_def Let_def)
qed

text \<open>
  C7. A row that is imported without error and whose exam and question text are those
  of an existing Question \<open>q0\<close> does not create a question: the table keeps its length
  and \<open>q0\<close> is updated in place, its topic overwritten by the topic \<open>t\<close> of the row
  (none when the row names no topic) and its type, difficulty, explanation, points,
  order and active flag by the values of the row; all choices \<open>q0\<close> had are deleted
  before the new ones are created, so that afterwards its choices are exactly the
  choices of the row, in order, marked correct by the resolved indices. The choices
  of the other questions stay as they were.
\<close>

theorem reimport_updates_in_place:
  assumes ex: "row_exam row d = (Inr e, d1)"
    and tp: "row_topic row e d1 = (Inr t, d2)"
    and pf: "parse_question_fields row = Inr f"
    and q0: "q0 \<in> set (questions d)" "question_exam q0 = exam_id e"
      "question_text q0 = f_question_text f"
    and ok: "process_row row row_num has_choice_columns d = (Inr res, d')"
  shows "\<not> created res
    \<and> length (questions d') = length (questions d)
    \<and> questions d' =
          map (\<lambda>r. if question_id r = question_id q0
                   then q0\<lparr>question_topic := map_option topic_id t,
                           question_type := f_question_type f,
                           difficulty := f_difficulty f,
                           explanation := f_explanation f, points := f_points f,
                           question_order := f_order f,
                           question_is_active := f_is_active f\<rparr>
                   else r) (questions d)
    \<and> (\<exists>choices_list text.
          parse_choices row has_choice_columns = Inr choices_list
          \<and> correct_answer_text row = Inr text
          \<and> choices_count res = length choices_list
          \<and> filter (\<lambda>c. choice_question c = question_id q0) (choices d') =
              imported_choices q0 (next_choice_id d)
                (resolve_correct_indices (f_question_type f) (f_question_text f)
                   choices_list text)
                choices_list)
    \<and> filter (\<lambda>c. choice_question c \<noteq> question_id q0) (choices d') =
        filter (\<lambda>c. choice_question c \<noteq> question_id q0) (choices d)"
proof -
  from ok obtain x dq where up: "upsert_question row d = (Inr x, dq)"
    and rest: "(case x of (q, was_created) \<Rightarrow>
     and_then (pure (parse_choices row has_choice_columns)) (\<lambda>choices_list.
     and_then (pure (correct_answer_text row)) (\<lambda>text.
       let correct_indices =
             resolve_correct_indices (question_type q) (question_text q) choices_list text
       in if correct_indices = []
          then pure (Inl (CannotDetermineCorrectAnswer text choices_list))
          else
     and_then (pure (validate_indices correct_indices (length choices_list))) (\<lambda>_.
     and_then (replace_choices q choices_list correct_indices) (\<lambda>n.
       pure (Inr \<lparr>created = was_created, choices_count = n\<rparr>)))))) dq = (Inr res, d')"
    unfolding process_row_def by (rule and_then_success)
  obtain q wc where x: "x = (q, wc)" by (cases x)
  from up [unfolded upsert_question_def] obtain e' da where
    ex': "row_exam row d = (Inr e', da)"
    and r1: "and_then (row_topic row e') (\<lambda>t.
     and_then (pure (parse_question_fields row)) (\<lambda>f.
       update_or_create_question e' t f)) da = (Inr x, dq)"
    by (rule and_then_success)
  from ex ex' have e': "e' = e" "da = d1" by simp_all
  from r1 obtain t' db where tp': "row_topic row e d1 = (Inr t', db)"
    and r2': "and_then (pure (parse_question_fields row)) (\<lambda>f.
       update_or_create_question e t' f) db = (Inr x, dq)"
    unfolding e' by (rule and_then_success)
  from tp tp' have t': "t' = t" "db = d2" by simp_all
  from r2' have r2: "and_then (pure (parse_question_fields row)) (\<lambda>f.
       update_or_create_question e t f) d2 = (Inr x, dq)"
    by (simp add: t')
  from r2 have uq: "update_or_create_question e t f d2 = (Inr (q, wc), dq)"
    by (simp add: pf and_then_pure_Inr x)
  have kept: "question_tables d2 = question_tables d"
    using row_exam_keeps [OF ex] row_topic_keeps [OF tp] by simp
  then have qs: "questions d2 = questions d" and nid: "next_choice_id d2 = next_choice_id d"
    and chs: "choices d2 = choices d"
    by (simp_all add: question_tables_def)
  note upd = update_existing_question [OF uq q0(1) [folded qs] q0(2,3)]
  have qid: "question_id q = question_id q0" "question_type q = f_question_type f"
    "question_text q = f_question_text f"
    using q0(3) by (simp_all add: upd(2))
  have dq: "questions dq = map (\<lambda>r. if question_id r = question_id q0 then q else r)
                              (questions d)"
    "next_choice_id dq = next_choice_id d" "choices dq = choices d"
    by (simp_all add: upd(3) qs nid chs)
  from rest [unfolded x prod.case] obtain cl d3 where
    pc: "pure (parse_choices row has_choice_columns) dq = (Inr cl, d3)"
    and r3: "and_then (pure (correct_answer_text row)) (\<lambda>text.
       let correct_indices =
             resolve_correct_indices (question_type q) (question_text q) cl text
       in if correct_indices = []
          then pure (Inl (CannotDetermineCorrectAnswer text cl))
          else
     and_then (pure (validate_indices correct_indices (length cl))) (\<lambda>_.
     and_then (replace_choices q cl correct_indices) (\<lambda>n.
       pure (Inr \<lparr>created = wc, choices_count = n\<rparr>)))) d3 = (Inr res, d')"
    by (rule and_then_success)
  from pc have pc': "parse_choices row has_choice_columns = Inr cl" "d3 = dq"
    by (simp_all add: pure_def)
  from r3 obtain ans d4 where
    ct: "pure (correct_answer_text row) d3 = (Inr ans, d4)"
    and r4: "(let correct_indices =
             resolve_correct_indices (question_type q) (question_text q) cl ans
       in if correct_indices = []
          then pure (Inl (CannotDetermineCorrectAnswer ans cl))
          else
     and_then (pure (validate_indices correct_indices (length cl))) (\<lambda>_.
     and_then (replace_choices q cl correct_indices) (\<lambda>n.
       pure (Inr \<lparr>created = wc, choices_count = n\<rparr>)))) d4 = (Inr res, d')"
    by (rule and_then_success)
  from ct have ct': "correct_answer_text row = Inr ans" "d4 = dq"
    by (simp_all add: pure_def pc')
  define ci where "ci = resolve_correct_indices (question_type q) (question_text q) cl ans"
  from r4 have ne: "ci \<noteq> []"
    by (auto simp: ci_def Let_def pure_def)
  with r4 have r5: "and_then (pure (validate_indices ci (length cl))) (\<lambda>_.
     and_then (replace_choices q cl ci) (\<lambda>n.
       pure (Inr \<lparr>created = wc, choices_count = n\<rparr>))) dq = (Inr res, d')"
    by (simp add: ci_def [symmetric] Let_def ct')
  from r5 obtain u d5 where "pure (validate_indices ci (length cl)) dq = (Inr u, d5)"
    and r6: "and_then (replace_choices q cl ci) (\<lambda>n.
       pure (Inr \<lparr>created = wc, choices_count = n\<rparr>)) d5 = (Inr res, d')"
    by (rule and_then_success)
  then have d5: "d5 = dq" by (simp add: pure_def)
  from r6 obtain n d6 where rc: "replace_choices q cl ci dq = (Inr n, d6)"
    and r7: "pure (Inr \<lparr>created = wc, choices_count = n\<rparr>) d6 = (Inr res, d')"
    unfolding d5 by (rule and_then_success)
  from r7 have res: "res = \<lparr>created = wc, choices_count = n\<rparr>" "d' = d6"
    by (simp_all add: pure_def)
  note rep = replace_choices_result [OF rc]
  have a: "\<not> created res" using upd(1) by (simp add: res)
  have b: "questions d' = map (\<lambda>r. if question_id r = question_id q0 then q else r)
                              (questions d)"
    by (simp add: res rep(2) dq)
  have c: "filter (\<lambda>c. choice_question c = question_id q0) (choices d') =
              imported_choices q0 (next_choice_id d)
                (resolve_correct_indices (f_question_type f) (f_question_text f) cl ans) cl"
    using rep(3) by (simp add: res dq qid ci_def imported_choices_def)
  have d: "choices_count res = length cl" by (simp add: res rep(1))
  have fr: "filter (\<lambda>c. choice_question c \<noteq> question_id q0) (choices d') =
        filter (\<lambda>c. choice_question c \<noteq> question_id q0) (choices d)"
    using rep(4) by (simp add: res dq qid)
  from b have len: "length (questions d') = length (questions d)" by simp
  from a b c d len pc' ct' fr show ?thesis
    unfolding upd(2) by blast
qed

text \<open>
  The question of the first data line is imported again, under the header with the
  topic column: the topic is created and set, every other field of the question takes
  the value of the row, and the two old choices give way to the three new ones.
\<close>

theorem reimport_updates_in_place_witness:
  "row_exam (map_row ex_column_map_topic ex_row_sum_topic) ex_imported_db
     = (Inr ex_imported_exam, ex_imported_db)
   \<and> fst (row_topic (map_row ex_column_map_topic ex_row_sum_topic) ex_imported_exam
             ex_imported_db)
       = Inr (Some \<lparr>topic_id = 1, topic_exam = 1, topic_name = ''Arithmetic'',
                     topic_description = [], topic_order = 0\<rparr>)
   \<and> ex_imported_question \<in> set (questions ex_imported_db)
   \<and> question_exam ex_imported_question = exam_id ex_imported_exam
   \<and> question_topic ex_imported_question = None
   \<and> fst (process_row (map_row ex_column_map_topic ex_row_sum_topic) 2 True ex_imported_db)
       = Inr \<lparr>created = False, choices_count = 3\<rparr>
   \<and> questions (snd (process_row (map_row ex_column_map_topic ex_row_sum_topic) 2 True
                         ex_imported_db))
       = [\<lparr>question_id = 1, question_exam = 1, question_topic = Some 1,
           question_text = ''2+2?'', question_type = ''multiple'', difficulty = ''hard'',
           explanation = ''Add them'', points = 3, question_order = 5,
           question_is_active = False\<rparr>]
   \<and> choices (snd (process_row (map_row ex_column_map_topic ex_row_sum_topic) 2 True
                       ex_imported_db))
       = imported_choices ex_imported_question 3 [1, 2] [''five'', ''four'', ''2 times 2'']"
proof -
  let ?row = "map_row ex_column_map_topic ex_row_sum_topic"
  let ?f = "\<lparr>f_question_text = ''2+2?'', f_question_type = ''multiple'',
             f_difficulty = ''hard'', f_explanation = ''Add them'', f_points = 3,
             f_order = 5, f_is_active = False\<rparr>"
  let ?t = "\<lparr>topic_id = 1, topic_exam = 1, topic_name = ''Arithmetic'',
             topic_description = [], topic_order = 0\<rparr>"
  have ex: "row_exam ?row ex_imported_db = (Inr ex_imported_exam, ex_imported_db)"
    by code_simp
  have t: "fst (row_topic ?row ex_imported_exam ex_imported_db) = Inr (Some ?t)"
    by code_simp
  then have tp: "row_topic ?row ex_imported_exam ex_imported_db
            = (Inr (Some ?t), snd (row_topic ?row ex_imported_exam ex_imported_db))"
    by (metis prod.collapse)
  have pf: "parse_question_fields ?row = Inr ?f"
    by code_simp
  have q0: "ex_imported_question \<in> set (questions ex_imported_db)"
    "question_exam ex_imported_question = exam_id ex_imported_exam"
    "question_text ex_imported_question = f_question_text ?f"
    by (simp_all add: ex_imported_db_def ex_imported_question_def ex_imported_exam_def)
  have r: "fst (process_row ?row 2 True ex_imported_db)
            = Inr \<lparr>created = False, choices_count = 3\<rparr>"
    by code_simp
  then have ok: "process_row ?row 2 True ex_imported_db
            = (Inr \<lparr>created = False, choices_count = 3\<rparr>,
               snd (process_row ?row 2 True ex_imported_db))"
    by (metis prod.collapse)
  have cs: "choices (snd (process_row ?row 2 True ex_imported_db))
              = imported_choices ex_imported_question 3 [1, 2]
                  [''five'', ''four'', ''2 times 2'']"
    by code_simp
  from reimport_updates_in_place [OF ex tp pf q0 ok] ex t q0 r cs show ?thesis
    by (simp add: ex_imported_question_def ex_imported_db_def)
qed

text \<open>
  The database refuses the points of a row: \<open>2\<^sup>6\<^sup>3\<close> does not fit the column and a
  negative number fails its check. The row fails after its topic was created, and the
  question keeps its values; \<open>2\<^sup>6\<^sup>3 - 1\<close> is stored.
\<close>

lemma import_refuses_points:
  "fst (process_row
          (map_row ex_column_map_topic
             (ex_row_sum_topic[11 := (''Points'', Str ''9223372036854775808'')]))
          2 True ex_imported_db) = Inl OverflowError
   \<and> fst (process_row
          (map_row ex_column_map_topic (ex_row_sum_topic[11 := (''Points'', Str ''-1'')]))
          2 True ex_imported_db) = Inl IntegrityError
   \<and> questions (snd (process_row
          (map_row ex_column_map_topic
             (ex_row_sum_topic[11 := (''Points'', Str ''9223372036854775808'')]))
          2 True ex_imported_db)) = [ex_imported_question]
   \<and> map topic_name (topics (snd (process_row
          (map_row ex_column_map_topic
             (ex_row_sum_topic[11 := (''Points'', Str ''9223372036854775808'')]))
          2 True ex_imported_db))) = [''Arithmetic'']
   \<and> map points (questions (snd (process_row
          (map_row ex_column_map_topic
             (ex_row_sum_topic[11 := (''Points'', Str ''9223372036854775807'')]))
          2 True ex_imported_db))) = [9223372036854775807]"
  by code_simp

section \<open>Importer: the transaction of a file\<close>

text \<open>
  No exception leaves the \<open>atomic\<close> block, since every row's exception is caught
  inside it: for a file that passes the header checks, the database after the file is
  the database as the rows left it, whether rows failed or not.
\<close>

lemma process_csv_file_keeps_row_changes:
  assumes "map_of column_map ''exam'' \<noteq> None" "map_of column_map ''question_text'' \<noteq> None"
    and "list_ex (\<lambda>k. map_of column_map k \<noteq> None) choice_keys"
  shows "snd (process_csv_file column_map rows d) =
         snd (process_rows column_map True rows 2
                \<lparr>errors = [], questions_created = 0, questions_updated = 0,
                 choices_created = 0\<rparr> d)"
  using assms
  by (simp add: process_csv_file_def atomic_def Let_def split: prod.splits)

text \<open>
  C1, on the code. A file of two data lines is imported into an empty database; the
  second line names a correct answer that matches no choice. The file is moved to the
  failed folder with an error log of one line and \<open>process_csv_file\<close> returns false,
  but nothing is rolled back: the category, the exam, the question of the first line
  with its two choices, and the question the failing line created before its error
  are all in the database afterwards. A file with the first line alone is moved to
  the processed folder with its changes committed.
\<close>

theorem failed_file_is_not_rolled_back:
  "fst (process_csv_file ex_column_map [ex_row_sum, ex_row_capital] ex_empty_db)
     = \<lparr>moved_to = Failed,
        error_log = Some [RowError 3 (CannotDetermineCorrectAnswer ''Berlin''
                                        [''Paris'', ''Rome''])],
        returned = False\<rparr>
   \<and> questions (snd (process_csv_file ex_column_map [ex_row_sum, ex_row_capital]
                         ex_empty_db))
       = [ex_imported_question, ex_capital_question]
   \<and> choices (snd (process_csv_file ex_column_map [ex_row_sum, ex_row_capital]
                       ex_empty_db))
       = choices ex_imported_db
   \<and> exams (snd (process_csv_file ex_column_map [ex_row_sum, ex_row_capital]
                     ex_empty_db))
       = [ex_imported_exam]
   \<and> process_csv_file ex_column_map [ex_row_sum] ex_empty_db
       = (\<lparr>moved_to = Processed, error_log = None, returned = True\<rparr>, ex_imported_db)"
  by code_simp

end
